theory Spec2Isabelle
  imports Complex_Main
begin

section \<open>JavaScript values used by the deployment tool\<close>

text \<open>
  Strings are sequences of UTF-8 bytes. \<open>toLowerCase\<close> folds the ASCII letters and the
  two characters outside ASCII whose lower case holds an ASCII letter: the Kelvin sign
  (U+212A, lower case \<open>k\<close>) and the capital I with dot above (U+0130, lower case \<open>i\<close>
  followed by the combining dot U+0307). Every other character outside ASCII is kept as
  it is; its lower case holds no ASCII character, so a test of the result against an ASCII
  word (\<open>includes\<close>, equality) does not depend on it. A thrown value is either an \<open>Error\<close> object
  carrying its message, or some value that is not an \<open>Error\<close> and has no
  \<open>message\<close> property (a thrown string, say); the program and the platform calls it
  makes (\<open>fetch\<close>, stream readers, \<open>JSON.parse\<close>, the identity provider's client) never
  throw \<open>null\<close> or \<open>undefined\<close>. An asynchronous call either resolves (\<open>Returns\<close>) or
  rejects (\<open>Throws\<close>). Simulated delays (\<open>setTimeout\<close>) and console output have no
  effect on any value computed here and are left out.
\<close>

datatype thrown = ErrorObj string | NonError

datatype 'a outcome = Returns 'a | Throws thrown

definition toLowerCase_char :: "char \<Rightarrow> char" where
  "toLowerCase_char c =
     (case map_of (zip ''ABCDEFGHIJKLMNOPQRSTUVWXYZ'' ''abcdefghijklmnopqrstuvwxyz'') c of
        None \<Rightarrow> c | Some l \<Rightarrow> l)"


fun startsWith :: "string \<Rightarrow> string \<Rightarrow> bool" where
  "startsWith s [] = True"
| "startsWith [] (p # ps) = False"
| "startsWith (c # cs) (p # ps) = (c = p \<and> startsWith cs ps)"

definition kelvin_sign :: string where
  "kelvin_sign = [CHR 0xE2, CHR 0x84, CHR 0xAA]"

definition capital_I_with_dot :: string where
  "capital_I_with_dot = [CHR 0xC4, CHR 0xB0]"

definition combining_dot_above :: string where
  "combining_dot_above = [CHR 0xCC, CHR 0x87]"

fun toLowerCase :: "string \<Rightarrow> string" where
  "toLowerCase [] = []"
| "toLowerCase (c # s) =
     (if startsWith (c # s) kelvin_sign then CHR ''k'' # toLowerCase (drop 2 s)
      else if startsWith (c # s) capital_I_with_dot
      then CHR ''i'' # combining_dot_above @ toLowerCase (drop 1 s)
      else toLowerCase_char c # toLowerCase s)"

declare toLowerCase.simps [simp del]

text \<open>\<open>s.includes(sub)\<close>: \<open>sub\<close> occurs in \<open>s\<close> as a contiguous substring.\<close>

fun str_includes :: "string \<Rightarrow> string \<Rightarrow> bool" where
  "str_includes [] sub = (sub = [])"
| "str_includes (c # cs) sub = (startsWith (c # cs) sub \<or> str_includes cs sub)"

text \<open>\<open>a || b\<close> on optional strings: \<open>undefined\<close> and the empty string are falsy.\<close>

definition truthy :: "string option \<Rightarrow> bool" where
  "truthy v = (case v of None \<Rightarrow> False | Some s \<Rightarrow> s \<noteq> [])"

definition or_else :: "string option \<Rightarrow> string option \<Rightarrow> string option" where
  "or_else a b = (if truthy a then a else b)"

definition or_default :: "string option \<Rightarrow> string \<Rightarrow> string" where
  "or_default a d = (case a of None \<Rightarrow> d | Some s \<Rightarrow> if s = [] then d else s)"

text \<open>\<open>xs.indexOf(x)\<close>: the first position of \<open>x\<close>, or \<open>-1\<close>.\<close>

fun indexOf :: "'a list \<Rightarrow> 'a \<Rightarrow> int" where
  "indexOf [] x = -1"
| "indexOf (y # ys) x =
     (if y = x then 0 else (let i = indexOf ys x in if i < 0 then -1 else i + 1))"

section \<open>Build progress (CodeBuild integration and build monitor)\<close>

text \<open>
  The fields of the CodeBuild \<open>Build\<close> and \<open>BuildPhase\<close> objects that the progress
  computation reads; each is optional in the SDK.
\<close>

record BuildPhase =
  phaseType :: "string option"
  phaseStatus :: "string option"

record Build =
  currentPhase :: "string option"
  phases :: "BuildPhase list option"
  buildStatus :: "string option"
  buildComplete :: "bool option"

record BuildProgress =
  phase :: string
  status :: string
  percentage :: int
  message :: string

definition getPhaseMessage :: "string \<Rightarrow> string option \<Rightarrow> string" where
  "getPhaseMessage ph st =
     (let messages =
        [(''SUBMITTED'', ''Build submitted''),
         (''QUEUED'', ''Build queued''),
         (''PROVISIONING'', ''Provisioning build environment''),
         (''DOWNLOAD_SOURCE'', ''Downloading source''),
         (''INSTALL'', ''Installing dependencies''),
         (''PRE_BUILD'', ''Running pre-build commands''),
         (''BUILD'', ''Building container image''),
         (''POST_BUILD'', ''Pushing image to ECR''),
         (''UPLOAD_ARTIFACTS'', ''Uploading artifacts''),
         (''FINALIZING'', ''Finalizing build''),
         (''COMPLETED'',
            if st = Some ''SUCCEEDED'' then ''Build completed successfully''
            else ''Build failed'')]
      in or_default (map_of messages ph) (''Build phase: '' @ ph))"

text \<open>
  \<open>completedPhases\<close> of \<open>buildToBuildProgress\<close> in the CodeBuild integration: the number
  of phase records whose status is \<open>SUCCEEDED\<close>.
\<close>

definition completedPhases :: "Build \<Rightarrow> nat" where
  "completedPhases build =
     length (filter (\<lambda>p. phaseStatus p = Some ''SUCCEEDED'')
               (case phases build of None \<Rightarrow> [] | Some ps \<Rightarrow> ps))"

text \<open>
  \<open>Math.floor((completedPhases / totalPhases) * 100)\<close> is taken over the reals. The
  double-precision value agrees with it for every count below 23 (at 23 the product is
  rounded to just under 460); a CodeBuild build has eleven phases. For a larger count
  the two differ by at most one, so both order the percentages of two builds as their
  counts are ordered.
\<close>

definition totalPhases :: nat where
  "totalPhases = 5"

definition buildToBuildProgress :: "Build \<Rightarrow> BuildProgress" where
  "buildToBuildProgress build =
     (let cur = or_default (currentPhase build) ''SUBMITTED'' in
      \<lparr>phase = cur,
       status = or_default (buildStatus build) ''IN_PROGRESS'',
       percentage = \<lfloor>(real (completedPhases build) / real totalPhases) * 100\<rfloor>,
       message = getPhaseMessage cur (buildStatus build)\<rparr>)"

text \<open>
  \<open>getBuildProgress\<close> asks the build service for the build (\<open>client\<close> stands for the
  \<open>BatchGetBuilds\<close> call) and raises when the answer holds no build.
\<close>

definition getBuildProgress ::
  "(string \<Rightarrow> Build list option outcome) \<Rightarrow> string \<Rightarrow> BuildProgress outcome" where
  "getBuildProgress client buildId =
     (case client buildId of
        Throws e \<Rightarrow> Throws e
      | Returns None \<Rightarrow> Throws (ErrorObj (''Build '' @ buildId @ '' not found''))
      | Returns (Some []) \<Rightarrow> Throws (ErrorObj (''Build '' @ buildId @ '' not found''))
      | Returns (Some (build # _)) \<Rightarrow> Returns (buildToBuildProgress build))"

text \<open>
  The build monitor has a function of the same name, which places the current phase in a
  fixed ordered list of phases, and its own table of phase messages.
\<close>

definition getPhaseMessage_monitor :: "string \<Rightarrow> string option \<Rightarrow> string" where
  "getPhaseMessage_monitor ph st =
     (let messages =
        [(''SUBMITTED'', ''Build submitted to queue''),
         (''QUEUED'', ''Build queued, waiting for resources''),
         (''PROVISIONING'', ''Provisioning build environment''),
         (''DOWNLOAD_SOURCE'', ''Downloading source code''),
         (''INSTALL'', ''Installing dependencies''),
         (''PRE_BUILD'', ''Running pre-build commands (ECR login)''),
         (''BUILD'', ''Building Docker container image''),
         (''POST_BUILD'', ''Pushing image to Amazon ECR''),
         (''UPLOAD_ARTIFACTS'', ''Uploading build artifacts''),
         (''FINALIZING'', ''Finalizing build''),
         (''COMPLETED'',
            if st = Some ''SUCCEEDED'' then ''Build completed successfully''
            else ''Build failed'')]
      in or_default (map_of messages ph) (''Build phase: '' @ ph))"

definition phaseOrder :: "string list" where
  "phaseOrder =
     [''SUBMITTED'', ''QUEUED'', ''PROVISIONING'', ''DOWNLOAD_SOURCE'', ''INSTALL'',
      ''PRE_BUILD'', ''BUILD'', ''POST_BUILD'', ''UPLOAD_ARTIFACTS'', ''FINALIZING'',
      ''COMPLETED'']"

definition buildToBuildProgress_monitor :: "Build \<Rightarrow> BuildProgress" where
  "buildToBuildProgress_monitor build =
     (let cur = or_default (currentPhase build) ''SUBMITTED'';
          currentIndex = indexOf phaseOrder cur in
      \<lparr>phase = cur,
       status = or_default (buildStatus build) ''IN_PROGRESS'',
       percentage =
         (if currentIndex \<ge> 0
          then \<lfloor>(real_of_int currentIndex / real (length phaseOrder)) * 100\<rfloor> else 0),
       message = getPhaseMessage_monitor cur (buildStatus build)\<rparr>)"

text \<open>
  Build states used below. \<open>build_at ph done\<close> is a build whose current phase is \<open>ph\<close>,
  with the phases \<open>done\<close> recorded as succeeded and the current one still open.
\<close>

definition build_at :: "string \<Rightarrow> string list \<Rightarrow> string option \<Rightarrow> Build" where
  "build_at ph done st =
     \<lparr>currentPhase = Some ph,
      phases = Some (map (\<lambda>p. \<lparr>phaseType = Some p, phaseStatus = Some ''SUCCEEDED''\<rparr>) done
                     @ [\<lparr>phaseType = Some ph, phaseStatus = None\<rparr>]),
      buildStatus = st,
      buildComplete = Some (ph = ''COMPLETED'')\<rparr>"

text \<open>
  The three polled states of the scenario \<open>SUBMITTED\<close>, \<open>BUILD\<close>, \<open>COMPLETED\<close>
  (succeeded): every phase before the current one is recorded as succeeded.
\<close>

definition poll_submitted :: Build where
  "poll_submitted = build_at ''SUBMITTED'' [] (Some ''IN_PROGRESS'')"

definition poll_build :: Build where
  "poll_build = build_at ''BUILD'' [''SUBMITTED''] (Some ''IN_PROGRESS'')"

definition poll_completed :: Build where
  "poll_completed = build_at ''COMPLETED'' [''SUBMITTED'', ''BUILD''] (Some ''SUCCEEDED'')"

text \<open>
  The same three polls of a build that records all the phases of the build service.
\<close>

definition poll_build_all :: Build where
  "poll_build_all =
     build_at ''BUILD''
       [''SUBMITTED'', ''QUEUED'', ''PROVISIONING'', ''DOWNLOAD_SOURCE'', ''INSTALL'',
        ''PRE_BUILD''] (Some ''IN_PROGRESS'')"

definition poll_completed_all :: Build where
  "poll_completed_all =
     build_at ''COMPLETED''
       [''SUBMITTED'', ''QUEUED'', ''PROVISIONING'', ''DOWNLOAD_SOURCE'', ''INSTALL'',
        ''PRE_BUILD'', ''BUILD'', ''POST_BUILD'', ''UPLOAD_ARTIFACTS'', ''FINALIZING'']
       (Some ''SUCCEEDED'')"

text \<open>
  Two polls of one build, the second later than the first: the phase records that had
  succeeded at the first poll are the first succeeded records of the second, and the
  phase that was current at the first poll is among those that have succeeded since.
\<close>

definition succeededPhases :: "Build \<Rightarrow> BuildPhase list" where
  "succeededPhases build =
     filter (\<lambda>p. phaseStatus p = Some ''SUCCEEDED'')
       (case phases build of None \<Rightarrow> [] | Some ps \<Rightarrow> ps)"

definition later_poll :: "Build \<Rightarrow> Build \<Rightarrow> bool" where
  "later_poll b1 b2 =
     (take (length (succeededPhases b1)) (succeededPhases b2) = succeededPhases b1
      \<and> (\<exists>p \<in> set (drop (length (succeededPhases b1)) (succeededPhases b2)).
            phaseType p = currentPhase b1))"

section \<open>Deployment records\<close>

text \<open>
  Where two interfaces of the source share a field name, the field carries a short prefix
  of its interface here (\<open>d_status\<close> of a \<open>Deployment\<close>, \<open>rb_success\<close> of a
  \<open>RollbackResult\<close>, \<open>cfg_auth\<close> of a \<open>Config\<close>). A \<open>Date\<close> is its time value in
  milliseconds. The identifiers of the identity pool and client may be \<open>undefined\<close> at
  run time (the configuration declares them optional and the orchestrator only asserts
  them), so they are optional. The phase of a \<open>DeploymentError\<close> is the string that
  \<open>createDeploymentResult\<close> stores there.
\<close>

datatype deployment_state = CREATING | ACTIVE | FAILED | UPDATING

fun state_name :: "deployment_state \<Rightarrow> string" where
  "state_name CREATING = ''CREATING''"
| "state_name ACTIVE = ''ACTIVE''"
| "state_name FAILED = ''FAILED''"
| "state_name UPDATING = ''UPDATING''"

datatype DeploymentStatus = IN_PROGRESS | SUCCESS | STATUS_FAILED | ROLLED_BACK

record Endpoint =
  url :: string
  protocol :: string
  authRequired :: bool

record DeploymentAuthConfig =
  cognitoUserPoolId :: "string option"
  cognitoClientId :: "string option"
  cognitoRegion :: string

record Deployment =
  d_id :: string
  d_status :: deployment_state
  d_imageUri :: string
  d_authConfig :: DeploymentAuthConfig
  d_endpoint :: "Endpoint option"
  d_createdAt :: int
  d_updatedAt :: int

record HealthStatus =
  hs_healthy :: bool
  hs_message :: "string option"
  hs_timestamp :: int

record AccessibilityCheck =
  accessible :: bool
  ac_message :: string

record Verification =
  healthy :: bool
  endpoint :: "Endpoint option"
  healthStatus :: HealthStatus
  accessibilityCheck :: "AccessibilityCheck option"

record RollbackResult =
  rb_success :: bool
  rb_message :: string
  cleanedResources :: "string list"
  restoredVersion :: "string option"

record DeploymentHistory =
  h_deploymentId :: string
  h_imageUri :: string
  h_timestamp :: int
  h_status :: DeploymentStatus

record DeploymentError =
  code :: string
  err_message :: string
  err_phase :: string
  suggestion :: "string option"

record ResourceInfo =
  buildId :: "string option"
  ri_imageUri :: "string option"
  ri_cognitoUserPoolId :: "string option"
  ri_cognitoClientId :: "string option"
  endpointUrl :: "string option"

record DeploymentResult =
  success :: bool
  dr_endpoint :: "Endpoint option"
  dr_authConfig :: "DeploymentAuthConfig option"
  error :: "DeploymentError option"
  resourceInfo :: "ResourceInfo option"

record ProjectConfig =
  project_name :: string
  project_region :: string

record ServerConfig =
  command :: string
  args :: "string list"
  transport :: string
  environment :: "(string \<times> string) list"
  port :: "nat option"

record BuildConfig =
  codebuildProject :: string
  ecrRepository :: string

record AuthConfig =
  auth_cognitoUserPoolId :: "string option"
  auth_cognitoClientId :: "string option"
  auth_cognitoRegion :: "string option"

record Config =
  cfg_version :: string
  cfg_project :: ProjectConfig
  cfg_server :: ServerConfig
  cfg_build :: BuildConfig
  cfg_auth :: AuthConfig

record DeploymentConfig =
  dc_imageUri :: string
  dc_authConfig :: DeploymentAuthConfig
  dc_projectName :: string
  dc_region :: string
  dc_serverConfig :: ServerConfig

record OrchestrationOptions =
  opt_imageUri :: string
  opt_config :: Config
  opt_verbose :: bool

section \<open>The world of a deployment run\<close>

text \<open>
  The deployment functions read the system clock, draw one random suffix and call each
  other. The world holds the readings the clock will give (\<open>clock w k\<close> is the value of
  the \<open>k\<close>-th reading, in milliseconds), the random suffixes, and the trace of the calls
  made so far. An asynchronous function is a function from the state it runs in to its
  outcome and the state it leaves; \<open>bind\<close> is \<open>await\<close> followed by the rest of the function,
  \<open>try_catch\<close> a \<open>try\<close> block with its \<open>catch\<close> block.
\<close>

datatype event =
    DeployToRuntime DeploymentConfig
  | SubmitDeployment Deployment
  | WaitForDeployment string
  | VerifyDeployment Deployment
  | SaveDeploymentToHistory Deployment string
  | RollbackDeployment Deployment string
  | CleanupFailedDeployment string
  | RestorePreviousVersion DeploymentHistory

record world =
  clock :: "nat \<Rightarrow> nat"
  reads :: nat
  random_suffix :: "nat \<Rightarrow> string"
  draws :: nat
  calls :: "event list"

type_synonym ('s, 'a) prog = "'s \<Rightarrow> 'a outcome \<times> 's"

type_synonym 'a io = "(world, 'a) prog"

definition ret :: "'a \<Rightarrow> ('s, 'a) prog" where
  "ret x w = (Returns x, w)"

definition throw :: "thrown \<Rightarrow> ('s, 'a) prog" where
  "throw e w = (Throws e, w)"

definition bind :: "('s, 'a) prog \<Rightarrow> ('a \<Rightarrow> ('s, 'b) prog) \<Rightarrow> ('s, 'b) prog" where
  "bind m f w = (case m w of (Returns x, w') \<Rightarrow> f x w' | (Throws e, w') \<Rightarrow> (Throws e, w'))"

definition try_catch :: "('s, 'a) prog \<Rightarrow> (thrown \<Rightarrow> ('s, 'a) prog) \<Rightarrow> ('s, 'a) prog" where
  "try_catch m h w = (case m w of (Returns x, w') \<Rightarrow> (Returns x, w') | (Throws e, w') \<Rightarrow> h e w')"

definition date_now :: "nat io" where
  "date_now w = (Returns (clock w (reads w)), w\<lparr>reads := Suc (reads w)\<rparr>)"

definition math_random_suffix :: "string io" where
  "math_random_suffix w = (Returns (random_suffix w (draws w)), w\<lparr>draws := Suc (draws w)\<rparr>)"

definition call :: "event \<Rightarrow> unit io" where
  "call ev w = (Returns (), w\<lparr>calls := calls w @ [ev]\<rparr>)"

text \<open>Decimal digits of a number, as a template literal prints it.\<close>

fun show_nat :: "nat \<Rightarrow> string" where
  "show_nat n =
     (if n < 10 then [''0123456789'' ! n] else show_nat (n div 10) @ [''0123456789'' ! (n mod 10)])"

declare show_nat.simps [simp del]

text \<open>\<open>xs.join(sep)\<close>.\<close>

fun join :: "string \<Rightarrow> string list \<Rightarrow> string" where
  "join sep [] = []"
| "join sep [x] = x"
| "join sep (x # y # ys) = x @ sep @ join sep (y # ys)"

section \<open>Deployment to the runtime\<close>

record PrerequisiteCheck =
  ready :: bool
  missing :: "string list"

definition checkPrerequisites ::
  "string option \<Rightarrow> DeploymentAuthConfig option \<Rightarrow> PrerequisiteCheck" where
  "checkPrerequisites uri authConfig =
     (let m1 = (if \<not> truthy uri then [''Container image URI''] else []);
          m2 = (if \<not> truthy (Option.bind authConfig cognitoUserPoolId)
                then [''Cognito User Pool ID''] else []);
          m3 = (if \<not> truthy (Option.bind authConfig cognitoClientId)
                then [''Cognito Client ID''] else [])
      in \<lparr>ready = (m1 @ m2 @ m3 = []), missing = m1 @ m2 @ m3\<rparr>)"

definition generateDeploymentId :: "string \<Rightarrow> string io" where
  "generateDeploymentId projectName =
     bind date_now (\<lambda>timestamp.
     bind math_random_suffix (\<lambda>random.
     ret (projectName @ ''-'' @ show_nat timestamp @ ''-'' @ random)))"

text \<open>
  \<open>deployToRuntime\<close> checks the prerequisites and then creates the deployment record;
  \<open>SubmitDeployment\<close> marks the point where the source would call the runtime's API.
\<close>

definition deployToRuntime :: "DeploymentConfig \<Rightarrow> Deployment io" where
  "deployToRuntime dc =
     bind (call (DeployToRuntime dc)) (\<lambda>_.
     let prereqCheck = checkPrerequisites (Some (dc_imageUri dc)) (Some (dc_authConfig dc)) in
     if \<not> ready prereqCheck
     then throw (ErrorObj (''Deployment prerequisites not met. Missing: ''
                           @ join '', '' (missing prereqCheck)))
     else
       bind (generateDeploymentId (dc_projectName dc)) (\<lambda>deploymentId.
       bind date_now (\<lambda>created.
       bind date_now (\<lambda>updated.
       let deployment =
             \<lparr>d_id = deploymentId, d_status = CREATING, d_imageUri = dc_imageUri dc,
              d_authConfig = dc_authConfig dc, d_endpoint = None,
              d_createdAt = int created, d_updatedAt = int updated\<rparr> in
       bind (call (SubmitDeployment deployment)) (\<lambda>_.
       ret deployment)))))"

definition getDeploymentStatus :: "string \<Rightarrow> Deployment io" where
  "getDeploymentStatus deploymentId =
     (let region = ''us-east-1'';
          endpointUrl = ''https://'' @ deploymentId @ ''.agentcore-runtime.'' @ region
                        @ ''.amazonaws.com'' in
      bind date_now (\<lambda>t1.
      bind date_now (\<lambda>t2.
      ret \<lparr>d_id = deploymentId, d_status = ACTIVE, d_imageUri = ''placeholder-image-uri'',
           d_authConfig = \<lparr>cognitoUserPoolId = Some ''placeholder-pool-id'',
                           cognitoClientId = Some ''placeholder-client-id'',
                           cognitoRegion = region\<rparr>,
           d_endpoint = Some \<lparr>url = endpointUrl, protocol = ''streamable-http'',
                              authRequired = True\<rparr>,
           d_createdAt = int t1 - 60000, d_updatedAt = int t2\<rparr>)))"

text \<open>
  The polling loop of \<open>waitForDeployment\<close>: it reads the clock, and while the time limit
  has not passed it asks for the status and returns a deployment that is \<open>ACTIVE\<close> or
  \<open>FAILED\<close>. The status query above always answers \<open>ACTIVE\<close>, so the loop never goes
  round a second time; this is its termination argument.
\<close>

function waitForDeployment_loop :: "string \<Rightarrow> nat \<Rightarrow> nat \<Rightarrow> Deployment io" where
  "waitForDeployment_loop deploymentId timeoutMs startTime w =
     (case date_now w of
        (Throws e, w1) \<Rightarrow> (Throws e, w1)
      | (Returns now, w1) \<Rightarrow>
          if int now - int startTime < int timeoutMs then
            (case getDeploymentStatus deploymentId w1 of
               (Throws e, w2) \<Rightarrow> (Throws e, w2)
             | (Returns deployment, w2) \<Rightarrow>
                 if d_status deployment = ACTIVE \<or> d_status deployment = FAILED
                 then (Returns deployment, w2)
                 else waitForDeployment_loop deploymentId timeoutMs startTime w2)
          else (Throws (ErrorObj (''Deployment '' @ deploymentId @ '' timed out after ''
                                  @ show_nat timeoutMs @ ''ms'')), w1))"
  by pat_completeness auto
termination
  by (relation "{}")
     (auto simp: getDeploymentStatus_def bind_def date_now_def ret_def Let_def)

declare waitForDeployment_loop.simps [simp del]

definition waitForDeployment :: "string \<Rightarrow> nat \<Rightarrow> Deployment io" where
  "waitForDeployment deploymentId timeoutMs =
     bind (call (WaitForDeployment deploymentId)) (\<lambda>_.
     bind date_now (\<lambda>startTime.
     waitForDeployment_loop deploymentId timeoutMs startTime))"

section \<open>Health check and endpoint\<close>

text \<open>
  The probes are the source's: the liveness probe passes exactly when it is given a
  non-empty endpoint URL, the accessibility probe always passes. Their \<open>try\<close> blocks
  are kept, although nothing inside them throws.
\<close>

definition performHealthCheck :: "string \<Rightarrow> string option \<Rightarrow> HealthStatus io" where
  "performHealthCheck deploymentId endpointUrl_opt =
     try_catch
       (if \<not> truthy endpointUrl_opt
        then bind date_now (\<lambda>t.
             ret \<lparr>hs_healthy = False,
                  hs_message = Some ''No endpoint URL available for health check'',
                  hs_timestamp = int t\<rparr>)
        else bind date_now (\<lambda>t.
             ret \<lparr>hs_healthy = True, hs_message = Some ''Service is healthy'',
                  hs_timestamp = int t\<rparr>))
       (\<lambda>e. bind date_now (\<lambda>t.
             ret \<lparr>hs_healthy = False,
                  hs_message = Some (case e of ErrorObj m \<Rightarrow> m | NonError \<Rightarrow> ''Health check failed''),
                  hs_timestamp = int t\<rparr>))"

definition generateEndpointUrl :: "string \<Rightarrow> string \<Rightarrow> string" where
  "generateEndpointUrl deploymentId region =
     ''https://'' @ deploymentId @ ''.agentcore-runtime.'' @ region @ ''.amazonaws.com''"

definition createEndpoint :: "Deployment \<Rightarrow> string \<Rightarrow> Endpoint io" where
  "createEndpoint deployment region =
     (if d_status deployment \<noteq> ACTIVE
      then throw (ErrorObj (''Cannot create endpoint for deployment in ''
                            @ state_name (d_status deployment) @ '' state. ''
                            @ ''Deployment must be ACTIVE.''))
      else ret \<lparr>url = generateEndpointUrl (d_id deployment) region,
                protocol = ''streamable-http'', authRequired = True\<rparr>)"

definition verifyEndpointAccessibility ::
  "Endpoint \<Rightarrow> string option \<Rightarrow> AccessibilityCheck io" where
  "verifyEndpointAccessibility ep authToken =
     try_catch
       (ret \<lparr>accessible = True, ac_message = ''Endpoint is accessible and responding''\<rparr>)
       (\<lambda>e. ret \<lparr>accessible = False,
                  ac_message = (case e of ErrorObj m \<Rightarrow> m | NonError \<Rightarrow> ''Verification failed'')\<rparr>)"

definition verifyDeployment :: "Deployment \<Rightarrow> string \<Rightarrow> Verification io" where
  "verifyDeployment deployment region =
     bind (call (VerifyDeployment deployment)) (\<lambda>_.
     bind (performHealthCheck (d_id deployment) (map_option url (d_endpoint deployment)))
       (\<lambda>hs.
     if \<not> hs_healthy hs
     then ret \<lparr>healthy = False, endpoint = None, healthStatus = hs,
               accessibilityCheck = None\<rparr>
     else
       bind (case d_endpoint deployment of
               Some ep \<Rightarrow> ret ep
             | None \<Rightarrow> createEndpoint deployment region) (\<lambda>ep.
       bind (verifyEndpointAccessibility ep None) (\<lambda>ac.
       ret \<lparr>healthy = (hs_healthy hs \<and> accessible ac), endpoint = Some ep,
            healthStatus = hs, accessibilityCheck = Some ac\<rparr>))))"

section \<open>Rollback\<close>

definition isDeploymentFailed :: "Deployment \<Rightarrow> bool" where
  "isDeploymentFailed deployment = (d_status deployment = FAILED)"

definition getPreviousStableVersion :: "string \<Rightarrow> DeploymentHistory option io" where
  "getPreviousStableVersion projectName = ret None"

definition cleanupFailedDeployment :: "string \<Rightarrow> string list io" where
  "cleanupFailedDeployment deploymentId =
     bind (call (CleanupFailedDeployment deploymentId)) (\<lambda>_.
     try_catch
       (ret ([] @ [''Deployment '' @ deploymentId] @ [''Associated runtime resources'']))
       (\<lambda>e. ret []))"

definition restorePreviousVersion :: "DeploymentHistory \<Rightarrow> Deployment io" where
  "restorePreviousVersion previousVersion =
     bind (call (RestorePreviousVersion previousVersion)) (\<lambda>_.
     bind date_now (\<lambda>created.
     bind date_now (\<lambda>updated.
     ret \<lparr>d_id = h_deploymentId previousVersion @ ''-restored'', d_status = ACTIVE,
          d_imageUri = h_imageUri previousVersion,
          d_authConfig = \<lparr>cognitoUserPoolId = Some ''restored-pool-id'',
                          cognitoClientId = Some ''restored-client-id'',
                          cognitoRegion = ''us-east-1''\<rparr>,
          d_endpoint = None, d_createdAt = int created, d_updatedAt = int updated\<rparr>)))"

definition rollbackDeployment :: "Deployment \<Rightarrow> string \<Rightarrow> RollbackResult io" where
  "rollbackDeployment failedDeployment projectName =
     bind (call (RollbackDeployment failedDeployment projectName)) (\<lambda>_.
     if \<not> isDeploymentFailed failedDeployment
     then ret \<lparr>rb_success = False,
               rb_message = ''Deployment has not failed, rollback not needed'',
               cleanedResources = [], restoredVersion = None\<rparr>
     else
       bind (cleanupFailedDeployment (d_id failedDeployment)) (\<lambda>cleaned.
       bind (getPreviousStableVersion projectName) (\<lambda>previousVersion.
       case previousVersion of
         None \<Rightarrow>
           ret \<lparr>rb_success = True,
                rb_message = ''Failed deployment cleaned up. No previous version to restore.'',
                cleanedResources = cleaned, restoredVersion = None\<rparr>
       | Some pv \<Rightarrow>
           try_catch
             (bind (restorePreviousVersion pv) (\<lambda>restoredDeployment.
              ret \<lparr>rb_success = True,
                   rb_message = ''Successfully rolled back to previous stable version'',
                   cleanedResources = cleaned,
                   restoredVersion = Some (d_id restoredDeployment)\<rparr>))
             (\<lambda>e.
              ret \<lparr>rb_success = False,
                   rb_message = ''Cleanup completed but restoration failed: ''
                     @ (case e of ErrorObj m \<Rightarrow> m | NonError \<Rightarrow> ''Unknown error''),
                   cleanedResources = cleaned, restoredVersion = None\<rparr>))))"

definition saveDeploymentToHistory :: "Deployment \<Rightarrow> string \<Rightarrow> unit io" where
  "saveDeploymentToHistory deployment projectName =
     bind (call (SaveDeploymentToHistory deployment projectName)) (\<lambda>_.
     let historyEntry =
           \<lparr>h_deploymentId = d_id deployment, h_imageUri = d_imageUri deployment,
            h_timestamp = d_createdAt deployment,
            h_status = (if d_status deployment = ACTIVE then SUCCESS else STATUS_FAILED)\<rparr>
     in ret ())"

section \<open>Deployment results\<close>

definition createDeploymentResult ::
  "bool \<Rightarrow> Endpoint option \<Rightarrow> DeploymentAuthConfig option \<Rightarrow> ResourceInfo option
   \<Rightarrow> string option \<Rightarrow> DeploymentResult" where
  "createDeploymentResult ok ep authConfig info errorMessage =
     (let result = \<lparr>success = ok, dr_endpoint = ep, dr_authConfig = authConfig,
                    error = None, resourceInfo = info\<rparr> in
      if \<not> ok \<and> truthy errorMessage
      then result\<lparr>error := Some \<lparr>code = ''DEPLOYMENT_FAILED'',
                                   err_message = or_default errorMessage [],
                                   err_phase = ''DEPLOYING'', suggestion = None\<rparr>\<rparr>
      else result)"

text \<open>
  The orchestrator passes \<open>deployment.endpoint!\<close>; the assertion does nothing at run
  time, so the parameter is the optional endpoint.
\<close>

definition createSuccessResult ::
  "Endpoint option \<Rightarrow> DeploymentAuthConfig \<Rightarrow> ResourceInfo \<Rightarrow> DeploymentResult" where
  "createSuccessResult ep authConfig info =
     createDeploymentResult True ep (Some authConfig) (Some info) None"

definition createFailureResult :: "string \<Rightarrow> ResourceInfo option \<Rightarrow> DeploymentResult" where
  "createFailureResult errorMessage info =
     createDeploymentResult False None None info (Some errorMessage)"

section \<open>Deployment orchestration\<close>

text \<open>
  \<open>orchestrateDeployment\<close> is one \<open>try\<close> block followed by one \<open>catch\<close> block; the two
  blocks are named so that a failing step can be spoken of. Step 1 of the \<open>try\<close> block
  builds the deployment configuration and cannot throw.
\<close>

definition deploymentConfig_of :: "OrchestrationOptions \<Rightarrow> DeploymentConfig" where
  "deploymentConfig_of options =
     (let cfg = opt_config options in
      \<lparr>dc_imageUri = opt_imageUri options,
       dc_authConfig =
         \<lparr>cognitoUserPoolId = auth_cognitoUserPoolId (cfg_auth cfg),
          cognitoClientId = auth_cognitoClientId (cfg_auth cfg),
          cognitoRegion = or_default (auth_cognitoRegion (cfg_auth cfg))
                            (project_region (cfg_project cfg))\<rparr>,
       dc_projectName = project_name (cfg_project cfg),
       dc_region = project_region (cfg_project cfg),
       dc_serverConfig = cfg_server cfg\<rparr>)"

definition orchestrateDeployment_try :: "OrchestrationOptions \<Rightarrow> DeploymentResult io" where
  "orchestrateDeployment_try options =
     (let cfg = opt_config options;
          deploymentConfig = deploymentConfig_of options in
      bind (deployToRuntime deploymentConfig) (\<lambda>d0.
      bind (waitForDeployment (d_id d0) 300000) (\<lambda>d1.
      if d_status d1 = FAILED
      then throw (ErrorObj ''Deployment failed during runtime initialization'')
      else
        bind (verifyDeployment d1 (project_region (cfg_project cfg))) (\<lambda>verification.
        if \<not> healthy verification
        then throw (ErrorObj (''Deployment health check failed: ''
               @ (case hs_message (healthStatus verification) of
                    None \<Rightarrow> ''undefined'' | Some m \<Rightarrow> m)))
        else
          let d2 = (case endpoint verification of
                      Some ep \<Rightarrow> d1\<lparr>d_endpoint := Some ep\<rparr> | None \<Rightarrow> d1) in
          bind (saveDeploymentToHistory d2 (project_name (cfg_project cfg))) (\<lambda>_.
          let info = \<lparr>buildId = Some (codebuildProject (cfg_build cfg)),
                      ri_imageUri = Some (opt_imageUri options),
                      ri_cognitoUserPoolId = cognitoUserPoolId (dc_authConfig deploymentConfig),
                      ri_cognitoClientId = cognitoClientId (dc_authConfig deploymentConfig),
                      endpointUrl = map_option url (d_endpoint d2)\<rparr> in
          ret (createSuccessResult (d_endpoint d2) (dc_authConfig deploymentConfig) info))))))"

text \<open>
  The \<open>catch\<close> block builds a deployment record of its own, in state \<open>FAILED\<close> and named
  after the clock, and hands it to \<open>rollbackDeployment\<close>; the result of the rollback is
  only printed. The block is written over the rollback it awaits, so as to say what it
  returns whatever the rollback reports; the source's block is the one at
  \<open>rollbackDeployment\<close>.
\<close>

definition failedDeployment_of ::
  "OrchestrationOptions \<Rightarrow> nat \<Rightarrow> nat \<Rightarrow> nat \<Rightarrow> Deployment" where
  "failedDeployment_of options t0 t1 t2 =
     (let cfg = opt_config options in
      \<lparr>d_id = ''failed-'' @ show_nat t0, d_status = FAILED,
       d_imageUri = opt_imageUri options,
       d_authConfig =
         \<lparr>cognitoUserPoolId = Some (or_default (auth_cognitoUserPoolId (cfg_auth cfg)) []),
          cognitoClientId = Some (or_default (auth_cognitoClientId (cfg_auth cfg)) []),
          cognitoRegion = or_default (auth_cognitoRegion (cfg_auth cfg))
                            (project_region (cfg_project cfg))\<rparr>,
       d_endpoint = None, d_createdAt = int t1, d_updatedAt = int t2\<rparr>)"

definition failureInfo_of :: "OrchestrationOptions \<Rightarrow> ResourceInfo" where
  "failureInfo_of options =
     \<lparr>buildId = Some (codebuildProject (cfg_build (opt_config options))),
      ri_imageUri = Some (opt_imageUri options),
      ri_cognitoUserPoolId = None, ri_cognitoClientId = None, endpointUrl = None\<rparr>"

definition orchestrateDeployment_catch_with ::
  "(Deployment \<Rightarrow> string \<Rightarrow> RollbackResult io) \<Rightarrow> OrchestrationOptions \<Rightarrow> thrown
   \<Rightarrow> DeploymentResult io" where
  "orchestrateDeployment_catch_with rollback options e =
     (let errorMessage =
            (case e of ErrorObj m \<Rightarrow> m | NonError \<Rightarrow> ''Unknown deployment error'') in
      bind date_now (\<lambda>t0.
      bind date_now (\<lambda>t1.
      bind date_now (\<lambda>t2.
      let failedDeployment = failedDeployment_of options t0 t1 t2 in
      bind (rollback failedDeployment
              (project_name (cfg_project (opt_config options)))) (\<lambda>rollbackResult.
      ret (createFailureResult errorMessage (Some (failureInfo_of options))))))))"

definition orchestrateDeployment_catch ::
  "OrchestrationOptions \<Rightarrow> thrown \<Rightarrow> DeploymentResult io" where
  "orchestrateDeployment_catch options e =
     orchestrateDeployment_catch_with rollbackDeployment options e"

definition orchestrateDeployment :: "OrchestrationOptions \<Rightarrow> DeploymentResult io" where
  "orchestrateDeployment options =
     try_catch (orchestrateDeployment_try options) (orchestrateDeployment_catch options)"

text \<open>
  Sample inputs for the closed instances below: a world whose clock starts at a fixed
  instant and advances by one millisecond per reading, and a deployment in a given state
  with or without an endpoint.
\<close>

definition world0 :: world where
  "world0 = \<lparr>clock = (\<lambda>k. 1700000000000 + k), reads = 0,
             random_suffix = (\<lambda>k. ''k3x9qa''), draws = 0, calls = []\<rparr>"

definition sample_endpoint :: Endpoint where
  "sample_endpoint = \<lparr>url = ''https://demo.agentcore-runtime.us-east-1.amazonaws.com'',
                      protocol = ''streamable-http'', authRequired = True\<rparr>"

definition sample_deployment :: "deployment_state \<Rightarrow> Endpoint option \<Rightarrow> Deployment" where
  "sample_deployment st ep =
     \<lparr>d_id = ''demo-1700000000000-k3x9qa'', d_status = st,
      d_imageUri = ''123456789012.dkr.ecr.us-east-1.amazonaws.com/demo:latest'',
      d_authConfig = \<lparr>cognitoUserPoolId = Some ''us-east-1_Pool'',
                      cognitoClientId = Some ''client-1'', cognitoRegion = ''us-east-1''\<rparr>,
      d_endpoint = ep, d_createdAt = 1700000000000, d_updatedAt = 1700000000000\<rparr>"

text \<open>
  A complete configuration, launch options without an image URI (the prerequisites of the
  deployment are then not met), and a world whose clock jumps ahead by more than the five
  minutes \<open>waitForDeployment\<close> allows between its first two readings.
\<close>

definition sample_config :: Config where
  "sample_config =
     \<lparr>cfg_version = ''1.0'',
      cfg_project = \<lparr>project_name = ''demo'', project_region = ''us-east-1''\<rparr>,
      cfg_server = \<lparr>command = ''uvx'', args = [''excel-mcp-server''],
                    transport = ''streamable-http'', environment = [], port = Some 8000\<rparr>,
      cfg_build = \<lparr>codebuildProject = ''demo-build'', ecrRepository = ''demo''\<rparr>,
      cfg_auth = \<lparr>auth_cognitoUserPoolId = Some ''us-east-1_Pool'',
                  auth_cognitoClientId = Some ''client-1'', auth_cognitoRegion = None\<rparr>\<rparr>"

definition options_no_image :: OrchestrationOptions where
  "options_no_image = \<lparr>opt_imageUri = [], opt_config = sample_config, opt_verbose = False\<rparr>"

definition options_ready :: OrchestrationOptions where
  "options_ready =
     \<lparr>opt_imageUri = ''123456789012.dkr.ecr.us-east-1.amazonaws.com/demo:latest'',
      opt_config = sample_config, opt_verbose = False\<rparr>"

definition world_slow :: world where
  "world_slow = \<lparr>clock = (\<lambda>k. if k < 4 then 1700000000000 + k else 1700000400000 + k),
                 reads = 0, random_suffix = (\<lambda>k. ''k3x9qa''), draws = 0, calls = []\<rparr>"

text \<open>A rollback that reports a failed restoration.\<close>

definition rollback_failing :: "Deployment \<Rightarrow> string \<Rightarrow> RollbackResult io" where
  "rollback_failing fd p =
     ret \<lparr>rb_success = False,
          rb_message = ''Cleanup completed but restoration failed: quota exceeded'',
          cleanedResources = [''Deployment '' @ d_id fd], restoredVersion = None\<rparr>"

section \<open>Gateway: requests, responses and the handler's state\<close>

text \<open>
  The headers of a request are a map from header names to values. A response body that
  the source produces with \<open>JSON.stringify\<close> is kept as the JSON value it prints. The
  body of a backend response is the script of what successive \<open>reader.read()\<close> calls
  give: a chunk of bytes, the end of the stream, or a rejection. The handler's state holds
  the services it talks to (the identity provider's \<open>GetUser\<close>, \<open>JSON.parse\<close>, the
  backend behind \<open>fetch\<close>), the time (as \<open>toISOString\<close> prints it), the backend URL, the
  connector's connection table and the trace of the requests sent out.
\<close>

datatype ErrorCategory = CONFIG_ERROR | BUILD_ERROR | AUTH_ERROR | DEPLOYMENT_ERROR | RUNTIME_ERROR

fun category_name :: "ErrorCategory \<Rightarrow> string" where
  "category_name CONFIG_ERROR = ''CONFIG_ERROR''"
| "category_name BUILD_ERROR = ''BUILD_ERROR''"
| "category_name AUTH_ERROR = ''AUTH_ERROR''"
| "category_name DEPLOYMENT_ERROR = ''DEPLOYMENT_ERROR''"
| "category_name RUNTIME_ERROR = ''RUNTIME_ERROR''"

record CategorizedError =
  category :: ErrorCategory
  ce_code :: string
  ce_message :: string
  details :: "string option"
  originalError :: "thrown option"

record MCPRequest =
  jsonrpc :: string
  rpc_method :: string
  params :: "string option"
  rpc_id :: string

datatype request_body = TextBody string | ObjectBody MCPRequest

record IncomingRequest =
  req_method :: string
  req_url :: string
  headers :: "string \<rightharpoonup> string"
  body :: "request_body option"

datatype read_result = Chunk string | Done | Failed thrown

record Response =
  ok :: bool
  r_status :: nat
  statusText :: string
  r_body :: "read_result list option"

datatype json = JString string | JNull | JArray "json list" | JObject "(string \<times> json) list"

datatype response_body = JsonText json | ByteStream "read_result list"

record StreamableResponse =
  sr_status :: nat
  sr_headers :: "(string \<times> string) list"
  sr_body :: response_body

record TokenValidationResult =
  valid :: bool
  userId :: "string option"
  tv_error :: "string option"

record MCPConnection =
  conn_url :: string
  connected :: bool

datatype request_event = GetUser string | Fetch string "MCPRequest option"

record gateway =
  cognito :: "string \<Rightarrow> string option outcome"
  json_parse :: "string \<Rightarrow> MCPRequest outcome"
  mcp_server :: "string \<Rightarrow> MCPRequest option \<Rightarrow> Response outcome"
  iso_time :: string
  mcpServerUrl :: string
  connections :: "string \<rightharpoonup> MCPConnection"
  traffic :: "request_event list"

definition cognito_send :: "string \<Rightarrow> (gateway, string option) prog" where
  "cognito_send token g = (cognito g token, g\<lparr>traffic := traffic g @ [GetUser token]\<rparr>)"

definition fetch :: "string \<Rightarrow> MCPRequest option \<Rightarrow> (gateway, Response) prog" where
  "fetch u request g = (mcp_server g u request, g\<lparr>traffic := traffic g @ [Fetch u request]\<rparr>)"

section \<open>Gateway: token validation\<close>

text \<open>\<open>s.split(c)\<close> for a one-character separator: always at least one part.\<close>

fun split_on :: "char \<Rightarrow> string \<Rightarrow> string list" where
  "split_on c [] = [[]]"
| "split_on c (x # xs) =
     (if x = c then [] # split_on c xs
      else (case split_on c xs of p # ps \<Rightarrow> (x # p) # ps | [] \<Rightarrow> [[x]]))"

definition extractToken :: "(string \<rightharpoonup> string) \<Rightarrow> string option" where
  "extractToken hs =
     (let authHeader = or_else (hs ''authorization'') (hs ''Authorization'') in
      case authHeader of
        None \<Rightarrow> None
      | Some v \<Rightarrow>
          if v = [] then None
          else (let parts = split_on CHR '' '' v in
                if length parts \<noteq> 2 \<or> parts ! 0 \<noteq> ''Bearer'' then None
                else Some (parts ! 1)))"

definition validateToken :: "string \<Rightarrow> (gateway, TokenValidationResult) prog" where
  "validateToken token =
     try_catch
       (bind (cognito_send token) (\<lambda>username.
        ret \<lparr>valid = True, userId = username, tv_error = None\<rparr>))
       (\<lambda>e. ret \<lparr>valid = False, userId = None,
                  tv_error = Some (or_default (case e of ErrorObj m \<Rightarrow> Some m | NonError \<Rightarrow> None)
                                     ''Token validation failed'')\<rparr>)"

definition validateRequest ::
  "(string \<rightharpoonup> string) \<Rightarrow> (gateway, TokenValidationResult) prog" where
  "validateRequest hs =
     (let token = extractToken hs in
      if \<not> truthy token
      then ret \<lparr>valid = False, userId = None,
                tv_error = Some ''Missing or invalid Authorization header''\<rparr>
      else validateToken (or_default token []))"

definition createUnauthorizedResponse :: "string \<Rightarrow> StreamableResponse" where
  "createUnauthorizedResponse err =
     \<lparr>sr_status = 401,
      sr_headers = [(''Content-Type'', ''application/json''), (''WWW-Authenticate'', ''Bearer'')],
      sr_body = JsonText (JObject [(''error'', JString (category_name AUTH_ERROR)),
                                   (''message'', JString ''Unauthorized''),
                                   (''details'', JString err)])\<rparr>"

section \<open>Gateway: transmission errors\<close>

text \<open>
  \<open>categorizeError\<close> takes an \<open>Error\<close>, given here by its message; the tests of its four
  \<open>if\<close> statements are named after the comments that head them.
\<close>

definition isNetworkError :: "string \<Rightarrow> bool" where
  "isNetworkError msg =
     (str_includes msg ''network'' \<or> str_includes msg ''connection''
      \<or> str_includes msg ''timeout'' \<or> str_includes msg ''econnrefused'')"

definition isStreamError :: "string \<Rightarrow> bool" where
  "isStreamError msg =
     (str_includes msg ''stream'' \<or> str_includes msg ''pipe'' \<or> str_includes msg ''closed'')"

definition isAuthError :: "string \<Rightarrow> bool" where
  "isAuthError msg =
     (str_includes msg ''unauthorized'' \<or> str_includes msg ''forbidden''
      \<or> str_includes msg ''token'')"

definition isServerError :: "string \<Rightarrow> bool" where
  "isServerError msg = (str_includes msg ''mcp'' \<or> str_includes msg ''server'')"

definition categorizeError :: "string \<Rightarrow> CategorizedError" where
  "categorizeError error_message =
     (let msg = toLowerCase error_message in
      if isNetworkError msg
      then \<lparr>category = RUNTIME_ERROR, ce_code = ''TRANSMISSION_001'',
            ce_message = ''Network connection error'', details = Some error_message,
            originalError = Some (ErrorObj error_message)\<rparr>
      else if isStreamError msg
      then \<lparr>category = RUNTIME_ERROR, ce_code = ''TRANSMISSION_002'',
            ce_message = ''Stream transmission error'', details = Some error_message,
            originalError = Some (ErrorObj error_message)\<rparr>
      else if isAuthError msg
      then \<lparr>category = AUTH_ERROR, ce_code = ''TRANSMISSION_003'',
            ce_message = ''Authentication error during transmission'',
            details = Some error_message, originalError = Some (ErrorObj error_message)\<rparr>
      else if isServerError msg
      then \<lparr>category = RUNTIME_ERROR, ce_code = ''TRANSMISSION_004'',
            ce_message = ''MCP server error'', details = Some error_message,
            originalError = Some (ErrorObj error_message)\<rparr>
      else \<lparr>category = RUNTIME_ERROR, ce_code = ''TRANSMISSION_000'',
            ce_message = ''Transmission error'', details = Some error_message,
            originalError = Some (ErrorObj error_message)\<rparr>)"

definition getStatusCode :: "CategorizedError \<Rightarrow> nat" where
  "getStatusCode err =
     (case category err of
        AUTH_ERROR \<Rightarrow> 401
      | CONFIG_ERROR \<Rightarrow> 400
      | RUNTIME_ERROR \<Rightarrow>
          if ce_code err = ''TRANSMISSION_001'' then 503
          else if ce_code err = ''TRANSMISSION_002'' then 500
          else 500
      | _ \<Rightarrow> 500)"

definition getSuggestions :: "CategorizedError \<Rightarrow> string list" where
  "getSuggestions err =
     (if ce_code err = ''TRANSMISSION_001'' then
        [''Check if the MCP server is running and accessible'',
         ''Verify network connectivity'',
         ''Check firewall settings'',
         ''Retry the request after a short delay'']
      else if ce_code err = ''TRANSMISSION_002'' then
        [''The connection was interrupted during transmission'',
         ''Retry the request'',
         ''Check for network stability issues'']
      else if ce_code err = ''TRANSMISSION_003'' then
        [''Verify your authentication token is valid'',
         ''Obtain a new token if the current one has expired'',
         ''Check that you have permission to access this resource'']
      else if ce_code err = ''TRANSMISSION_004'' then
        [''The MCP server encountered an error'',
         ''Check MCP server logs for details'',
         ''Verify the request format is correct'',
         ''Contact the server administrator if the problem persists'']
      else
        [''An unexpected error occurred during transmission'',
         ''Retry the request'',
         ''Contact support if the problem persists''])"

definition errorBody :: "CategorizedError \<Rightarrow> string \<Rightarrow> json" where
  "errorBody err now =
     JObject
       [(''error'',
           JObject ([(''category'', JString (category_name (category err))),
                     (''code'', JString (ce_code err)),
                     (''message'', JString (ce_message err))]
                    @ (case details err of None \<Rightarrow> [] | Some d \<Rightarrow> [(''details'', JString d)])
                    @ [(''suggestions'', JArray (map JString (getSuggestions err)))])),
        (''timestamp'', JString now)]"

definition createErrorResponse :: "CategorizedError \<Rightarrow> string \<Rightarrow> StreamableResponse" where
  "createErrorResponse err now =
     \<lparr>sr_status = getStatusCode err,
      sr_headers = [(''Content-Type'', ''application/json''), (''Cache-Control'', ''no-cache'')],
      sr_body = JsonText (errorBody err now)\<rparr>"

text \<open>
  \<open>withErrorHandling\<close> runs the operation and, in its \<open>catch\<close> block, categorizes what was
  thrown. Its result is the operation's value or the error response. When the thrown
  value has no \<open>message\<close>, \<open>error.message.toLowerCase()\<close> itself throws a \<open>TypeError\<close>,
  which leaves the \<open>catch\<close> block.
\<close>

definition withErrorHandling ::
  "(gateway, 'a) prog \<Rightarrow> (gateway, 'a + StreamableResponse) prog" where
  "withErrorHandling operation g =
     (case operation g of
        (Returns v, g1) \<Rightarrow> (Returns (Inl v), g1)
      | (Throws e, g1) \<Rightarrow>
          (case e of
             ErrorObj m \<Rightarrow>
               (Returns (Inr (createErrorResponse (categorizeError m) (iso_time g1))), g1)
           | NonError \<Rightarrow>
               (Throws (ErrorObj
                  ''Cannot read properties of undefined (reading 'toLowerCase')''),
                g1)))"

section \<open>Gateway: backend connector\<close>

definition createConnection :: "string \<Rightarrow> (gateway, MCPConnection) prog" where
  "createConnection serverUrl = ret \<lparr>conn_url = serverUrl, connected = True\<rparr>"

definition connect :: "string \<Rightarrow> (gateway, MCPConnection) prog" where
  "connect serverUrl g =
     (case connections g serverUrl of
        Some existing \<Rightarrow>
          if connected existing then (Returns existing, g)
          else bind (createConnection serverUrl) (\<lambda>connection g'.
                 (Returns connection,
                  g'\<lparr>connections := (connections g')(serverUrl \<mapsto> connection)\<rparr>)) g
      | None \<Rightarrow>
          bind (createConnection serverUrl) (\<lambda>connection g'.
            (Returns connection,
             g'\<lparr>connections := (connections g')(serverUrl \<mapsto> connection)\<rparr>)) g)"

definition forwardRequest :: "string \<Rightarrow> MCPRequest option \<Rightarrow> (gateway, Response) prog" where
  "forwardRequest serverUrl request =
     bind (connect serverUrl) (\<lambda>connection.
     bind (fetch serverUrl request) (\<lambda>response.
     if \<not> ok response
     then throw (ErrorObj (''MCP server returned error: '' @ show_nat (r_status response)
                           @ '' '' @ statusText response))
     else ret response))"

section \<open>Gateway: stream handler\<close>

datatype chunk_type = DATA | ERROR | END

datatype chunk_payload = Text string | Message "string option" | Null

record StreamChunk =
  ctype :: chunk_type
  payload :: chunk_payload
  timestamp :: int

definition createStreamingResponse :: "Response \<Rightarrow> (gateway, StreamableResponse) prog" where
  "createStreamingResponse mcpResponse =
     (case r_body mcpResponse of
        None \<Rightarrow> throw (ErrorObj ''Response body is null'')
      | Some upstream \<Rightarrow>
          ret \<lparr>sr_status = r_status mcpResponse,
               sr_headers = [(''Content-Type'', ''application/json''),
                             (''Transfer-Encoding'', ''chunked''),
                             (''Cache-Control'', ''no-cache''),
                             (''Connection'', ''keep-alive'')],
               sr_body = ByteStream upstream\<rparr>)"

text \<open>
  The generator \<open>streamResponse\<close>, as the list of the chunks it yields. \<open>now k\<close> is the
  time at which the \<open>k\<close>-th chunk is made; \<open>decode\<close> is the streaming \<open>TextDecoder\<close>, a
  step function on the decoder's state. A body whose script is used up is at its end.
  The \<open>catch\<close> block yields the thrown value's \<open>message\<close>, which a value that is not an
  \<open>Error\<close> does not have.
\<close>

fun streamResponse_loop ::
  "(nat \<Rightarrow> int) \<Rightarrow> ('d \<Rightarrow> string \<Rightarrow> string \<times> 'd) \<Rightarrow> 'd \<Rightarrow> nat \<Rightarrow> read_result list
   \<Rightarrow> StreamChunk list" where
  "streamResponse_loop now decode st k [] = [\<lparr>ctype = END, payload = Null, timestamp = now k\<rparr>]"
| "streamResponse_loop now decode st k (Done # rest) =
     [\<lparr>ctype = END, payload = Null, timestamp = now k\<rparr>]"
| "streamResponse_loop now decode st k (Failed e # rest) =
     [\<lparr>ctype = ERROR,
       payload = Message (case e of ErrorObj m \<Rightarrow> Some m | NonError \<Rightarrow> None),
       timestamp = now k\<rparr>]"
| "streamResponse_loop now decode st k (Chunk v # rest) =
     (case decode st v of
        (decoded, st') \<Rightarrow>
          \<lparr>ctype = DATA, payload = Text decoded, timestamp = now k\<rparr>
          # streamResponse_loop now decode st' (Suc k) rest)"

definition streamResponse ::
  "(nat \<Rightarrow> int) \<Rightarrow> ('d \<Rightarrow> string \<Rightarrow> string \<times> 'd) \<Rightarrow> 'd \<Rightarrow> IncomingRequest \<Rightarrow> Response
   \<Rightarrow> StreamChunk list" where
  "streamResponse now decode st0 request mcpResponse =
     (case r_body mcpResponse of
        None \<Rightarrow> [\<lparr>ctype = ERROR, payload = Message (Some ''No response body''),
                  timestamp = now 0\<rparr>]
      | Some upstream \<Rightarrow> streamResponse_loop now decode st0 0 upstream)"

text \<open>
  \<open>createChunkedBody\<close> feeds the client's stream from the chunks: each chunk is
  serialized and enqueued (the queue holds the chunks themselves here), and after a chunk
  of type \<open>end\<close> or \<open>error\<close> the stream is closed and the loop left.
\<close>

record ClientStream =
  enqueued :: "StreamChunk list"
  closed :: bool

fun createChunkedBody_loop :: "StreamChunk list \<Rightarrow> ClientStream \<Rightarrow> ClientStream" where
  "createChunkedBody_loop [] controller = controller"
| "createChunkedBody_loop (c # rest) controller =
     (let controller' = controller\<lparr>enqueued := enqueued controller @ [c]\<rparr> in
      if ctype c = END \<or> ctype c = ERROR then controller'\<lparr>closed := True\<rparr>
      else createChunkedBody_loop rest controller')"

definition createChunkedBody :: "StreamChunk list \<Rightarrow> ClientStream" where
  "createChunkedBody chunks = createChunkedBody_loop chunks \<lparr>enqueued = [], closed = False\<rparr>"

section \<open>Gateway: the request handler\<close>

definition parseMCPRequest :: "request_body option \<Rightarrow> (gateway, MCPRequest option) prog" where
  "parseMCPRequest b g =
     (case b of
        Some (TextBody s) \<Rightarrow>
          (case json_parse g s of
             Returns r \<Rightarrow> (Returns (Some r), g)
           | Throws e \<Rightarrow> (Throws e, g))
      | Some (ObjectBody r) \<Rightarrow> (Returns (Some r), g)
      | None \<Rightarrow> (Returns None, g))"

definition handleRequest_operation :: "IncomingRequest \<Rightarrow> (gateway, StreamableResponse) prog" where
  "handleRequest_operation request =
     bind (validateRequest (headers request)) (\<lambda>validationResult.
     if \<not> valid validationResult
     then ret (createUnauthorizedResponse
                 (or_default (tv_error validationResult) ''Invalid token''))
     else
       bind (parseMCPRequest (body request)) (\<lambda>mcpRequest.
       bind (\<lambda>g. forwardRequest (mcpServerUrl g) mcpRequest g) (\<lambda>mcpResponse.
       bind (createStreamingResponse mcpResponse) (\<lambda>streamingResponse.
       ret streamingResponse))))"

definition handleRequest :: "IncomingRequest \<Rightarrow> (gateway, StreamableResponse) prog" where
  "handleRequest request =
     bind (withErrorHandling (handleRequest_operation request)) (\<lambda>r.
     ret (case r of Inl response \<Rightarrow> response | Inr response \<Rightarrow> response))"

text \<open>
  Sample gateway: an identity provider that knows one token, a backend that answers every
  request with one chunk, no connection yet and no request sent.
\<close>

definition gateway0 :: gateway where
  "gateway0 =
     \<lparr>cognito = (\<lambda>token. if token = ''good-token'' then Returns (Some ''alice'')
                          else Throws (ErrorObj ''Invalid Access Token'')),
      json_parse = (\<lambda>s. Throws (ErrorObj ''Unexpected token in JSON'')),
      mcp_server = (\<lambda>u request. Returns \<lparr>ok = True, r_status = 200, statusText = ''OK'',
                                          r_body = Some [Chunk ''{}'', Done]\<rparr>),
      iso_time = ''2026-01-01T00:00:00.000Z'',
      mcpServerUrl = ''http://127.0.0.1:8000/mcp'',
      connections = Map.empty,
      traffic = []\<rparr>"

text \<open>
  What the properties of the gateway speak of. \<open>no_bearer_authorization\<close> says that
  every header of the request whose name is \<open>authorization\<close> in some capitalisation has a
  value that is not two parts separated by one space or whose first part is not
  \<open>Bearer\<close>; a request without such a header satisfies it. \<open>terminal\<close> is the test of
  \<open>createChunkedBody\<close> for the chunk after which it closes the stream.
\<close>

definition no_bearer_authorization :: "(string \<rightharpoonup> string) \<Rightarrow> bool" where
  "no_bearer_authorization hs =
     (\<forall>k v. hs k = Some v \<and> toLowerCase k = ''authorization'' \<longrightarrow>
            length (split_on CHR '' '' v) \<noteq> 2 \<or> split_on CHR '' '' v ! 0 \<noteq> ''Bearer'')"

definition terminal :: "StreamChunk \<Rightarrow> bool" where
  "terminal c = (ctype c = END \<or> ctype c = ERROR)"

text \<open>Sample requests, operations, backend responses and chunks.\<close>

definition request_with :: "(string \<rightharpoonup> string) \<Rightarrow> IncomingRequest" where
  "request_with hs = \<lparr>req_method = ''POST'', req_url = ''/mcp'', headers = hs, body = None\<rparr>"

definition failing_with :: "string \<Rightarrow> (gateway, StreamableResponse) prog" where
  "failing_with m = throw (ErrorObj m)"

definition sample_response :: "read_result list option \<Rightarrow> Response" where
  "sample_response b = \<lparr>ok = True, r_status = 200, statusText = ''OK'', r_body = b\<rparr>"

definition data_chunk :: "string \<Rightarrow> int \<Rightarrow> StreamChunk" where
  "data_chunk s t = \<lparr>ctype = DATA, payload = Text s, timestamp = t\<rparr>"

definition end_chunk :: "int \<Rightarrow> StreamChunk" where
  "end_chunk t = \<lparr>ctype = END, payload = Null, timestamp = t\<rparr>"

definition error_chunk :: "string \<Rightarrow> int \<Rightarrow> StreamChunk" where
  "error_chunk m t = \<lparr>ctype = ERROR, payload = Message (Some m), timestamp = t\<rparr>"

section \<open>Properties of the build progress\<close>

lemma completedPhases_build_at: "completedPhases (build_at ph done st) = length done"
  by (simp add: completedPhases_def build_at_def filter_empty_conv)

lemma build_at_fields:
  "currentPhase (build_at ph done st) = Some ph"
  "buildStatus (build_at ph done st) = st"
  by (simp_all add: build_at_def)

lemma floor_fifths: "\<lfloor>(real n / real totalPhases) * 100\<rfloor> = 20 * int n"
proof -
  have "(real n / real totalPhases) * 100 = real_of_int (20 * int n)"
    by (simp add: totalPhases_def)
  then show ?thesis
    by (simp only: floor_of_int)
qed

lemma percentage_buildToBuildProgress:
  "percentage (buildToBuildProgress build) = 20 * int (completedPhases build)"
  by (simp only: buildToBuildProgress_def Let_def BuildProgress.select_convs floor_fifths)

text \<open>
  C6. The claim: the percentage computed by \<open>getBuildProgress\<close> is the index of the
  current phase in the fixed ordered phase list over the number of phases. The function
  behind \<open>getBuildProgress\<close> does not look at the phase list: it counts the succeeded
  phase records and divides by the constant 5. For a build that is in its \<open>BUILD\<close> phase
  with the six earlier CodeBuild phases succeeded, \<open>getBuildProgress\<close> reports 120,
  while the index of \<open>BUILD\<close> over the eleven phases is 54, which is what the build
  monitor's function of the same name reports. For a finished build, whose ten earlier
  phases have succeeded, the count gives 200.
\<close>

theorem C6_getBuildProgress_counts_succeeded_phases:
  "getBuildProgress
     (\<lambda>_. Returns (Some [build_at ''BUILD''
        [''SUBMITTED'', ''QUEUED'', ''PROVISIONING'', ''DOWNLOAD_SOURCE'', ''INSTALL'',
         ''PRE_BUILD''] (Some ''IN_PROGRESS'')])) ''b1''
   = Returns \<lparr>phase = ''BUILD'', status = ''IN_PROGRESS'', percentage = 120,
               message = ''Building container image''\<rparr>
   \<and> percentage (buildToBuildProgress_monitor (build_at ''BUILD''
        [''SUBMITTED'', ''QUEUED'', ''PROVISIONING'', ''DOWNLOAD_SOURCE'', ''INSTALL'',
         ''PRE_BUILD''] (Some ''IN_PROGRESS''))) = 54
   \<and> percentage (buildToBuildProgress (build_at ''COMPLETED''
        [''SUBMITTED'', ''QUEUED'', ''PROVISIONING'', ''DOWNLOAD_SOURCE'', ''INSTALL'',
         ''PRE_BUILD'', ''BUILD'', ''POST_BUILD'', ''UPLOAD_ARTIFACTS'', ''FINALIZING'']
        (Some ''SUCCEEDED''))) = 200"
  by (simp add: getBuildProgress_def buildToBuildProgress_def buildToBuildProgress_monitor_def
      completedPhases_build_at build_at_fields totalPhases_def phaseOrder_def
      getPhaseMessage_def or_default_def Let_def)

lemma percentage_monitor:
  "currentPhase build = Some ph \<Longrightarrow> ph \<noteq> [] \<Longrightarrow>
   percentage (buildToBuildProgress_monitor build) =
     (if indexOf phaseOrder ph \<ge> 0
      then \<lfloor>(real_of_int (indexOf phaseOrder ph) / real (length phaseOrder)) * 100\<rfloor>
      else 0)"
  by (simp add: buildToBuildProgress_monitor_def or_default_def Let_def)

lemma poll_states:
  "currentPhase poll_submitted = Some ''SUBMITTED''" "completedPhases poll_submitted = 0"
  "currentPhase poll_build = Some ''BUILD''" "completedPhases poll_build = 1"
  "currentPhase poll_completed = Some ''COMPLETED''" "completedPhases poll_completed = 2"
  by (simp_all add: poll_submitted_def poll_build_def poll_completed_def build_at_fields
      completedPhases_build_at)

text \<open>
  C7, as stated: over the polled states \<open>SUBMITTED\<close>, \<open>BUILD\<close>, \<open>COMPLETED\<close> the
  percentage of \<open>buildToBuildProgress\<close> strictly increases and is exactly 100 at
  \<open>COMPLETED\<close>. It fails: the percentage is the number of succeeded phase records over
  five, and the two phases that have succeeded when \<open>COMPLETED\<close> is current give 40.
\<close>

theorem C7_counterexample:
  "\<not> (percentage (buildToBuildProgress poll_submitted)
          < percentage (buildToBuildProgress poll_build)
      \<and> percentage (buildToBuildProgress poll_build)
          < percentage (buildToBuildProgress poll_completed)
      \<and> percentage (buildToBuildProgress poll_completed) = 100)"
  by (simp add: percentage_buildToBuildProgress poll_states)

lemma completedPhases_succeededPhases:
  "completedPhases build = length (succeededPhases build)"
  by (simp add: completedPhases_def succeededPhases_def)

lemma later_poll_more_succeeded:
  assumes "later_poll b1 b2"
  shows "completedPhases b1 < completedPhases b2"
proof -
  from assms have "drop (length (succeededPhases b1)) (succeededPhases b2) \<noteq> []"
    unfolding later_poll_def by auto
  then show ?thesis
    by (simp add: completedPhases_succeededPhases)
qed

lemma later_poll_build_at:
  "later_poll (build_at ph done st) (build_at ph' (done @ ph # later) st')"
  by (simp add: later_poll_def succeededPhases_def build_at_def filter_empty_conv)

text \<open>
  C7, amended: for polled states of a build that report the phases \<open>SUBMITTED\<close>, then
  \<open>BUILD\<close>, then \<open>COMPLETED\<close>, each phase that was current at one poll being recorded as
  succeeded at the next, the percentage strictly increases across the transitions. This
  holds for \<open>buildToBuildProgress\<close> of the CodeBuild integration, whatever the number of
  phase records, and for the index-based function of the build monitor. Nothing is said
  about the value at \<open>COMPLETED\<close>.
\<close>

theorem C7_progress_strictly_increases:
  assumes "currentPhase b1 = Some ''SUBMITTED''"
    and "currentPhase b2 = Some ''BUILD''"
    and "currentPhase b3 = Some ''COMPLETED''"
    and "later_poll b1 b2" and "later_poll b2 b3"
  shows "percentage (buildToBuildProgress b1) < percentage (buildToBuildProgress b2)
       \<and> percentage (buildToBuildProgress b2) < percentage (buildToBuildProgress b3)
       \<and> percentage (buildToBuildProgress_monitor b1)
           < percentage (buildToBuildProgress_monitor b2)
       \<and> percentage (buildToBuildProgress_monitor b2)
           < percentage (buildToBuildProgress_monitor b3)"
proof -
  have m1: "percentage (buildToBuildProgress_monitor b1) = 0"
    using assms(1) by (simp add: percentage_monitor phaseOrder_def)
  have m2: "percentage (buildToBuildProgress_monitor b2) = 54"
    using assms(2) by (simp add: percentage_monitor phaseOrder_def)
  have m3: "percentage (buildToBuildProgress_monitor b3) = 90"
    using assms(3) by (simp add: percentage_monitor phaseOrder_def)
  show ?thesis
    using later_poll_more_succeeded [OF assms(4)] later_poll_more_succeeded [OF assms(5)]
    by (simp add: percentage_buildToBuildProgress m1 m2 m3)
qed

lemma poll_states_all:
  "currentPhase poll_build_all = Some ''BUILD''"
  "currentPhase poll_completed_all = Some ''COMPLETED''"
  "later_poll poll_submitted poll_build" "later_poll poll_build poll_completed"
  "later_poll poll_submitted poll_build_all" "later_poll poll_build_all poll_completed_all"
  using later_poll_build_at [of "''SUBMITTED''" "[]" _ "''BUILD''" "[]"]
    later_poll_build_at [of "''BUILD''" "[''SUBMITTED'']" _ "''COMPLETED''" "[]"]
    later_poll_build_at [of "''SUBMITTED''" "[]" _ "''BUILD''"
      "[''QUEUED'', ''PROVISIONING'', ''DOWNLOAD_SOURCE'', ''INSTALL'', ''PRE_BUILD'']"]
    later_poll_build_at [of "''BUILD''"
      "[''SUBMITTED'', ''QUEUED'', ''PROVISIONING'', ''DOWNLOAD_SOURCE'', ''INSTALL'',
        ''PRE_BUILD'']" _ "''COMPLETED''"
      "[''POST_BUILD'', ''UPLOAD_ARTIFACTS'', ''FINALIZING'']"]
  by (simp_all add: poll_submitted_def poll_build_def poll_completed_def poll_build_all_def
      poll_completed_all_def build_at_fields)

text \<open>
  C7 (amended) at the three states of the scenario, and at the three states of a build that
  records all the phases of the build service.
\<close>

theorem C7_progress_strictly_increases_witness:
  "currentPhase poll_submitted = Some ''SUBMITTED''
   \<and> currentPhase poll_build = Some ''BUILD''
   \<and> currentPhase poll_completed = Some ''COMPLETED''
   \<and> later_poll poll_submitted poll_build \<and> later_poll poll_build poll_completed
   \<and> percentage (buildToBuildProgress poll_submitted)
       < percentage (buildToBuildProgress poll_build)
   \<and> percentage (buildToBuildProgress poll_build)
       < percentage (buildToBuildProgress poll_completed)
   \<and> percentage (buildToBuildProgress_monitor poll_submitted)
       < percentage (buildToBuildProgress_monitor poll_build)
   \<and> percentage (buildToBuildProgress_monitor poll_build)
       < percentage (buildToBuildProgress_monitor poll_completed)
   \<and> currentPhase poll_build_all = Some ''BUILD''
   \<and> currentPhase poll_completed_all = Some ''COMPLETED''
   \<and> later_poll poll_submitted poll_build_all
   \<and> later_poll poll_build_all poll_completed_all
   \<and> percentage (buildToBuildProgress poll_submitted)
       < percentage (buildToBuildProgress poll_build_all)
   \<and> percentage (buildToBuildProgress poll_build_all)
       < percentage (buildToBuildProgress poll_completed_all)"
  using C7_progress_strictly_increases [of poll_submitted poll_build poll_completed]
    C7_progress_strictly_increases [of poll_submitted poll_build_all poll_completed_all]
    poll_states poll_states_all
  by simp

section \<open>Properties of the rollback\<close>

text \<open>
  C2. For every deployment whose state is not \<open>FAILED\<close> and every project name,
  \<open>rollbackDeployment\<close> returns \<open>success = false\<close> with the message that rollback is not
  needed and an empty list of cleaned resources. The world it leaves differs from the one
  it found only by the record of the call to \<open>rollbackDeployment\<close> itself: neither
  \<open>cleanupFailedDeployment\<close> nor \<open>restorePreviousVersion\<close> is called, and the clock is
  not read.
\<close>

theorem C2_rollback_not_needed:
  assumes "d_status d \<noteq> FAILED"
  shows "rollbackDeployment d projectName w =
           (Returns \<lparr>rb_success = False,
                     rb_message = ''Deployment has not failed, rollback not needed'',
                     cleanedResources = [], restoredVersion = None\<rparr>,
            w\<lparr>calls := calls w @ [RollbackDeployment d projectName]\<rparr>)"
  using assms
  by (simp add: rollbackDeployment_def isDeploymentFailed_def bind_def call_def ret_def)

text \<open>C2 at an \<open>ACTIVE\<close> deployment.\<close>

theorem C2_rollback_not_needed_witness:
  "d_status (sample_deployment ACTIVE (Some sample_endpoint)) \<noteq> FAILED
   \<and> rollbackDeployment (sample_deployment ACTIVE (Some sample_endpoint)) ''demo'' world0 =
       (Returns \<lparr>rb_success = False,
                 rb_message = ''Deployment has not failed, rollback not needed'',
                 cleanedResources = [], restoredVersion = None\<rparr>,
        world0\<lparr>calls := calls world0
                 @ [RollbackDeployment (sample_deployment ACTIVE (Some sample_endpoint)) ''demo'']\<rparr>)"
  using C2_rollback_not_needed [of "sample_deployment ACTIVE (Some sample_endpoint)" "''demo''" world0]
  by (simp add: sample_deployment_def)

section \<open>Properties of the health verifier\<close>

lemma performHealthCheck_eq:
  "performHealthCheck i u w =
     (Returns \<lparr>hs_healthy = truthy u,
               hs_message = Some (if truthy u then ''Service is healthy''
                                  else ''No endpoint URL available for health check''),
               hs_timestamp = int (clock w (reads w))\<rparr>,
      w\<lparr>reads := Suc (reads w)\<rparr>)"
  by (simp add: performHealthCheck_def try_catch_def bind_def date_now_def ret_def)

lemma verifyEndpointAccessibility_eq:
  "verifyEndpointAccessibility ep tok w =
     (Returns \<lparr>accessible = True, ac_message = ''Endpoint is accessible and responding''\<rparr>, w)"
  by (simp add: verifyEndpointAccessibility_def try_catch_def ret_def)

lemma createEndpoint_not_ACTIVE:
  "d_status d \<noteq> ACTIVE \<Longrightarrow>
   createEndpoint d region w =
     (Throws (ErrorObj (''Cannot create endpoint for deployment in '' @ state_name (d_status d)
                        @ '' state. Deployment must be ACTIVE.'')), w)"
  by (simp add: createEndpoint_def throw_def)

lemma verifyDeployment_no_url:
  "\<not> truthy (map_option url (d_endpoint d)) \<Longrightarrow>
   verifyDeployment d region w =
     (Returns \<lparr>healthy = False, endpoint = None,
               healthStatus = \<lparr>hs_healthy = False,
                 hs_message = Some ''No endpoint URL available for health check'',
                 hs_timestamp = int (clock w (reads w))\<rparr>,
               accessibilityCheck = None\<rparr>,
      w\<lparr>calls := calls w @ [VerifyDeployment d], reads := Suc (reads w)\<rparr>)"
  by (simp add: verifyDeployment_def bind_def call_def performHealthCheck_eq ret_def)

lemma verifyDeployment_url:
  "d_endpoint d = Some ep \<Longrightarrow> url ep \<noteq> [] \<Longrightarrow>
   verifyDeployment d region w =
     (Returns \<lparr>healthy = True, endpoint = Some ep,
               healthStatus = \<lparr>hs_healthy = True, hs_message = Some ''Service is healthy'',
                 hs_timestamp = int (clock w (reads w))\<rparr>,
               accessibilityCheck =
                 Some \<lparr>accessible = True,
                       ac_message = ''Endpoint is accessible and responding''\<rparr>\<rparr>,
      w\<lparr>calls := calls w @ [VerifyDeployment d], reads := Suc (reads w)\<rparr>)"
  by (simp add: verifyDeployment_def bind_def call_def performHealthCheck_eq ret_def
      verifyEndpointAccessibility_eq truthy_def)

lemma verifyDeployment_healthy_probes:
  assumes "verifyDeployment d region w = (Returns v, w')" and "healthy v"
  shows "\<exists>w2 ep ac.
           performHealthCheck (d_id d) (map_option url (d_endpoint d))
             (w\<lparr>calls := calls w @ [VerifyDeployment d]\<rparr>) = (Returns (healthStatus v), w2)
         \<and> hs_healthy (healthStatus v)
         \<and> endpoint v = Some ep
         \<and> verifyEndpointAccessibility ep None w2 = (Returns ac, w')
         \<and> accessibilityCheck v = Some ac \<and> accessible ac"
proof (cases "truthy (map_option url (d_endpoint d))")
  case False
  then show ?thesis
    using assms by (auto simp: verifyDeployment_no_url)
next
  case True
  then obtain ep where ep: "d_endpoint d = Some ep" "url ep \<noteq> []"
    by (cases "d_endpoint d") (auto simp: truthy_def)
  show ?thesis
    using assms ep
    by (auto simp: verifyDeployment_url performHealthCheck_eq verifyEndpointAccessibility_eq
        truthy_def)
qed

text \<open>
  C5, as stated: \<open>verifyDeployment\<close> never returns \<open>healthy = true\<close> for a deployment whose
  state is not \<open>ACTIVE\<close>. It fails for a deployment that is being updated and still
  carries its endpoint: the liveness probe only looks at the endpoint's URL, the endpoint
  is reused, and \<open>createEndpoint\<close>, the one place that checks the state, is not reached.
\<close>

theorem C5_counterexample:
  "d_status (sample_deployment UPDATING (Some sample_endpoint)) \<noteq> ACTIVE
   \<and> fst (verifyDeployment (sample_deployment UPDATING (Some sample_endpoint)) ''us-east-1''
            world0) =
       Returns \<lparr>healthy = True, endpoint = Some sample_endpoint,
                healthStatus = \<lparr>hs_healthy = True, hs_message = Some ''Service is healthy'',
                                 hs_timestamp = 1700000000000\<rparr>,
                accessibilityCheck =
                  Some \<lparr>accessible = True,
                        ac_message = ''Endpoint is accessible and responding''\<rparr>\<rparr>"
proof -
  have "d_endpoint (sample_deployment UPDATING (Some sample_endpoint)) = Some sample_endpoint"
    by (simp add: sample_deployment_def)
  moreover have "url sample_endpoint \<noteq> []"
    by (simp add: sample_endpoint_def)
  ultimately show ?thesis
    by (simp add: verifyDeployment_url) (simp add: sample_deployment_def world0_def)
qed

text \<open>
  C5, amended. The health verifier fails closed where it creates an endpoint: for every
  deployment whose state is not \<open>ACTIVE\<close>, \<open>createEndpoint\<close> raises an invalid-state
  error, and \<open>verifyDeployment\<close> returns \<open>healthy = false\<close> for such a deployment when it
  carries no endpoint URL (an endpoint that the deployment already carries is reused
  without a look at the state). For every deployment, \<open>verifyDeployment\<close> returns
  \<open>healthy = true\<close> only when the liveness probe \<open>performHealthCheck\<close> and the
  accessibility probe \<open>verifyEndpointAccessibility\<close>, run one after the other on the
  deployment and on the endpoint it returns, both pass.
\<close>

theorem C5_health_verifier_fails_closed:
  "(d_status d \<noteq> ACTIVE \<longrightarrow>
      createEndpoint d region w =
        (Throws (ErrorObj (''Cannot create endpoint for deployment in ''
                           @ state_name (d_status d) @ '' state. Deployment must be ACTIVE.'')),
         w))
   \<and> (d_status d \<noteq> ACTIVE \<and> \<not> truthy (map_option url (d_endpoint d)) \<longrightarrow>
        (\<exists>v w'. verifyDeployment d region w = (Returns v, w') \<and> \<not> healthy v))
   \<and> (\<forall>v w'. verifyDeployment d region w = (Returns v, w') \<and> healthy v \<longrightarrow>
        (\<exists>w2 ep ac.
           performHealthCheck (d_id d) (map_option url (d_endpoint d))
             (w\<lparr>calls := calls w @ [VerifyDeployment d]\<rparr>) = (Returns (healthStatus v), w2)
         \<and> hs_healthy (healthStatus v)
         \<and> endpoint v = Some ep
         \<and> verifyEndpointAccessibility ep None w2 = (Returns ac, w')
         \<and> accessibilityCheck v = Some ac \<and> accessible ac))"
proof (intro conjI impI allI)
  assume "d_status d \<noteq> ACTIVE"
  then show "createEndpoint d region w =
        (Throws (ErrorObj (''Cannot create endpoint for deployment in ''
                           @ state_name (d_status d) @ '' state. Deployment must be ACTIVE.'')),
         w)"
    by (rule createEndpoint_not_ACTIVE)
next
  assume "d_status d \<noteq> ACTIVE \<and> \<not> truthy (map_option url (d_endpoint d))"
  then show "\<exists>v w'. verifyDeployment d region w = (Returns v, w') \<and> \<not> healthy v"
    by (simp add: verifyDeployment_no_url)
next
  fix v w'
  assume "verifyDeployment d region w = (Returns v, w') \<and> healthy v"
  then show "\<exists>w2 ep ac.
           performHealthCheck (d_id d) (map_option url (d_endpoint d))
             (w\<lparr>calls := calls w @ [VerifyDeployment d]\<rparr>) = (Returns (healthStatus v), w2)
         \<and> hs_healthy (healthStatus v)
         \<and> endpoint v = Some ep
         \<and> verifyEndpointAccessibility ep None w2 = (Returns ac, w')
         \<and> accessibilityCheck v = Some ac \<and> accessible ac"
    using verifyDeployment_healthy_probes [of d region w v w'] by blast
qed

text \<open>
  C5 (amended) at a deployment that is still being created and has no endpoint (endpoint
  creation raises, the verification is unhealthy), and at an active deployment with its
  endpoint (the verification is healthy and both probes have passed).
\<close>

theorem C5_health_verifier_fails_closed_witness:
  "d_status (sample_deployment CREATING None) \<noteq> ACTIVE
   \<and> createEndpoint (sample_deployment CREATING None) ''us-east-1'' world0 =
       (Throws (ErrorObj
          ''Cannot create endpoint for deployment in CREATING state. Deployment must be ACTIVE.''),
        world0)
   \<and> \<not> truthy (map_option url (d_endpoint (sample_deployment CREATING None)))
   \<and> (\<exists>v w'. verifyDeployment (sample_deployment CREATING None) ''us-east-1'' world0
                 = (Returns v, w') \<and> \<not> healthy v)
   \<and> (\<exists>v w'. verifyDeployment (sample_deployment ACTIVE (Some sample_endpoint)) ''us-east-1''
                 world0 = (Returns v, w')
         \<and> healthy v \<and> hs_healthy (healthStatus v)
         \<and> accessibilityCheck v = Some \<lparr>accessible = True,
               ac_message = ''Endpoint is accessible and responding''\<rparr>)"
proof -
  let ?c = "sample_deployment CREATING None"
  let ?a = "sample_deployment ACTIVE (Some sample_endpoint)"
  have c1: "d_status ?c \<noteq> ACTIVE" and c2: "\<not> truthy (map_option url (d_endpoint ?c))"
    by (simp_all add: sample_deployment_def truthy_def)
  have c3: "state_name (d_status ?c) = ''CREATING''"
    by (simp add: sample_deployment_def)
  have a1: "d_endpoint ?a = Some sample_endpoint" and a2: "url sample_endpoint \<noteq> []"
    by (simp_all add: sample_deployment_def sample_endpoint_def)
  from C5_health_verifier_fails_closed [of ?c "''us-east-1''" world0] c1 c2 c3
  have "createEndpoint ?c ''us-east-1'' world0 =
       (Throws (ErrorObj
          ''Cannot create endpoint for deployment in CREATING state. Deployment must be ACTIVE.''),
        world0)"
    and "\<exists>v w'. verifyDeployment ?c ''us-east-1'' world0 = (Returns v, w') \<and> \<not> healthy v"
    by simp_all
  moreover from C5_health_verifier_fails_closed [of ?a "''us-east-1''" world0]
  have "\<exists>v w'. verifyDeployment ?a ''us-east-1'' world0 = (Returns v, w')
         \<and> healthy v \<and> hs_healthy (healthStatus v)
         \<and> accessibilityCheck v = Some \<lparr>accessible = True,
               ac_message = ''Endpoint is accessible and responding''\<rparr>"
    by (simp add: verifyDeployment_url [OF a1 a2])
  ultimately show ?thesis
    using c1 c2 by blast
qed

section \<open>Properties of the orchestrator\<close>

lemma deployToRuntime_eq:
  "deployToRuntime dc w =
     (if \<not> ready (checkPrerequisites (Some (dc_imageUri dc)) (Some (dc_authConfig dc)))
      then (Throws (ErrorObj (''Deployment prerequisites not met. Missing: ''
              @ join '', '' (missing (checkPrerequisites (Some (dc_imageUri dc))
                                        (Some (dc_authConfig dc)))))),
            w\<lparr>calls := calls w @ [DeployToRuntime dc]\<rparr>)
      else
        (let d = \<lparr>d_id = dc_projectName dc @ ''-'' @ show_nat (clock w (reads w)) @ ''-''
                        @ random_suffix w (draws w),
                  d_status = CREATING, d_imageUri = dc_imageUri dc,
                  d_authConfig = dc_authConfig dc, d_endpoint = None,
                  d_createdAt = int (clock w (Suc (reads w))),
                  d_updatedAt = int (clock w (Suc (Suc (reads w))))\<rparr>
         in (Returns d,
             w\<lparr>calls := calls w @ [DeployToRuntime dc, SubmitDeployment d],
               reads := reads w + 3, draws := Suc (draws w)\<rparr>)))"
  by (simp add: deployToRuntime_def generateDeploymentId_def bind_def call_def throw_def
      date_now_def math_random_suffix_def ret_def Let_def)

lemma waitForDeployment_loop_eq:
  "waitForDeployment_loop i t start w =
     (if int (clock w (reads w)) - int start < int t
      then (Returns \<lparr>d_id = i, d_status = ACTIVE, d_imageUri = ''placeholder-image-uri'',
           d_authConfig = \<lparr>cognitoUserPoolId = Some ''placeholder-pool-id'',
                           cognitoClientId = Some ''placeholder-client-id'',
                           cognitoRegion = ''us-east-1''\<rparr>,
           d_endpoint = Some \<lparr>url = ''https://'' @ i @ ''.agentcore-runtime.us-east-1.amazonaws.com'',
                              protocol = ''streamable-http'', authRequired = True\<rparr>,
           d_createdAt = int (clock w (Suc (reads w))) - 60000,
           d_updatedAt = int (clock w (Suc (Suc (reads w))))\<rparr>,
            w\<lparr>reads := reads w + 3\<rparr>)
      else (Throws (ErrorObj (''Deployment '' @ i @ '' timed out after '' @ show_nat t @ ''ms'')),
            w\<lparr>reads := Suc (reads w)\<rparr>))"
  by (subst waitForDeployment_loop.simps)
     (simp add: bind_def date_now_def getDeploymentStatus_def ret_def Let_def)

lemma waitForDeployment_eq:
  "waitForDeployment i t w =
     (if int (clock w (Suc (reads w))) - int (clock w (reads w)) < int t
      then (Returns \<lparr>d_id = i, d_status = ACTIVE, d_imageUri = ''placeholder-image-uri'',
           d_authConfig = \<lparr>cognitoUserPoolId = Some ''placeholder-pool-id'',
                           cognitoClientId = Some ''placeholder-client-id'',
                           cognitoRegion = ''us-east-1''\<rparr>,
           d_endpoint = Some \<lparr>url = ''https://'' @ i @ ''.agentcore-runtime.us-east-1.amazonaws.com'',
                              protocol = ''streamable-http'', authRequired = True\<rparr>,
           d_createdAt = int (clock w (reads w + 2)) - 60000,
           d_updatedAt = int (clock w (reads w + 3))\<rparr>,
            w\<lparr>calls := calls w @ [WaitForDeployment i], reads := reads w + 4\<rparr>)
      else (Throws (ErrorObj (''Deployment '' @ i @ '' timed out after '' @ show_nat t @ ''ms'')),
            w\<lparr>calls := calls w @ [WaitForDeployment i], reads := reads w + 2\<rparr>))"
  by (simp add: waitForDeployment_def bind_def call_def date_now_def waitForDeployment_loop_eq
      numeral_3_eq_3 numeral_2_eq_2)


lemma digit_not_dash: "k < 10 \<Longrightarrow> ''0123456789'' ! k \<noteq> CHR ''-''"
proof -
  assume "k < 10"
  then have "k \<in> {0,1,2,3,4,5,6,7,8,9}" by auto
  then show ?thesis by auto
qed

lemma show_nat_no_dash: "CHR ''-'' \<notin> set (show_nat n)"
proof (induction n rule: show_nat.induct)
  case (1 n)
  show ?case
  proof (cases "n < 10")
    case True
    then show ?thesis
      using digit_not_dash [of n] by (subst show_nat.simps) auto
  next
    case False
    have "n mod 10 < 10" by simp
    then have "''0123456789'' ! (n mod 10) \<noteq> CHR ''-''" by (rule digit_not_dash)
    with False 1 show ?thesis
      by (subst show_nat.simps) auto
  qed
qed

lemma count_dash_show_nat: "count_list (show_nat n) CHR ''-'' = 0"
  using show_nat_no_dash by (simp add: count_list_0_iff)

lemma failed_id_fresh:
  "''failed-'' @ show_nat t \<noteq> p @ ''-'' @ show_nat ts @ ''-'' @ r"
proof
  assume "''failed-'' @ show_nat t = p @ ''-'' @ show_nat ts @ ''-'' @ r"
  then have "count_list (''failed-'' @ show_nat t) CHR ''-''
             = count_list (p @ ''-'' @ show_nat ts @ ''-'' @ r) CHR ''-''"
    by simp
  then show False
    by (simp add: count_dash_show_nat)
qed

lemma orchestrateDeployment_catch_eq:
  "orchestrateDeployment_catch options e w1 =
     (Returns (createFailureResult
                 (case e of ErrorObj m \<Rightarrow> m | NonError \<Rightarrow> ''Unknown deployment error'')
                 (Some (failureInfo_of options))),
      w1\<lparr>reads := reads w1 + 3,
         calls := calls w1 @
           [RollbackDeployment
              (failedDeployment_of options (clock w1 (reads w1)) (clock w1 (Suc (reads w1)))
                 (clock w1 (Suc (Suc (reads w1)))))
              (project_name (cfg_project (opt_config options))),
            CleanupFailedDeployment (''failed-'' @ show_nat (clock w1 (reads w1)))]\<rparr>)"
  by (simp add: orchestrateDeployment_catch_def orchestrateDeployment_catch_with_def bind_def
      date_now_def rollbackDeployment_def call_def isDeploymentFailed_def
      cleanupFailedDeployment_def try_catch_def getPreviousStableVersion_def ret_def Let_def
      failedDeployment_of_def)


lemma deployToRuntime_cases:
  assumes "deployToRuntime dc w = (r, w0)"
  shows "clock w0 = clock w
       \<and> ((\<exists>m. r = Throws (ErrorObj m) \<and> m \<noteq> [] \<and> calls w0 = calls w @ [DeployToRuntime dc])
          \<or> (\<exists>d ts rnd. r = Returns d
                \<and> d_id d = dc_projectName dc @ ''-'' @ show_nat ts @ ''-'' @ rnd
                \<and> calls w0 = calls w @ [DeployToRuntime dc, SubmitDeployment d]))"
proof (cases "ready (checkPrerequisites (Some (dc_imageUri dc)) (Some (dc_authConfig dc)))")
  case False
  then show ?thesis
    using assms by (auto simp: deployToRuntime_eq)
next
  case True
  then have r: "r = Returns \<lparr>d_id = dc_projectName dc @ ''-'' @ show_nat (clock w (reads w)) @ ''-''
                        @ random_suffix w (draws w),
                  d_status = CREATING, d_imageUri = dc_imageUri dc,
                  d_authConfig = dc_authConfig dc, d_endpoint = None,
                  d_createdAt = int (clock w (Suc (reads w))),
                  d_updatedAt = int (clock w (Suc (Suc (reads w))))\<rparr>"
    and w0: "w0 = w\<lparr>calls := calls w @ [DeployToRuntime dc, SubmitDeployment
               \<lparr>d_id = dc_projectName dc @ ''-'' @ show_nat (clock w (reads w)) @ ''-''
                        @ random_suffix w (draws w),
                  d_status = CREATING, d_imageUri = dc_imageUri dc,
                  d_authConfig = dc_authConfig dc, d_endpoint = None,
                  d_createdAt = int (clock w (Suc (reads w))),
                  d_updatedAt = int (clock w (Suc (Suc (reads w))))\<rparr>],
               reads := reads w + 3, draws := Suc (draws w)\<rparr>"
    using assms by (simp_all add: deployToRuntime_eq Let_def)
  have "clock w0 = clock w"
    by (simp add: w0)
  moreover have "\<exists>d ts rnd. r = Returns d
                \<and> d_id d = dc_projectName dc @ ''-'' @ show_nat ts @ ''-'' @ rnd
                \<and> calls w0 = calls w @ [DeployToRuntime dc, SubmitDeployment d]"
    unfolding r w0 by (intro exI conjI) (rule refl, simp, simp)
  ultimately show ?thesis
    by blast
qed

lemma waitForDeployment_cases:
  assumes "waitForDeployment i t w = (r, w')"
  shows "clock w' = clock w \<and> calls w' = calls w @ [WaitForDeployment i]
       \<and> ((\<exists>m. r = Throws (ErrorObj m) \<and> m \<noteq> [])
          \<or> (\<exists>d ep. r = Returns d \<and> d_status d = ACTIVE \<and> d_endpoint d = Some ep
                \<and> url ep \<noteq> []))"
  using assms by (auto simp: waitForDeployment_eq split: if_splits)

lemma saveDeploymentToHistory_eq:
  "saveDeploymentToHistory d p w =
     (Returns (), w\<lparr>calls := calls w @ [SaveDeploymentToHistory d p]\<rparr>)"
  by (simp add: saveDeploymentToHistory_def bind_def call_def ret_def)

lemma orchestrateDeployment_try_throws:
  assumes "orchestrateDeployment_try options w = (Throws e, w1)"
  shows "\<exists>m evs. e = ErrorObj m \<and> m \<noteq> [] \<and> clock w1 = clock w \<and> calls w1 = calls w @ evs
         \<and> (\<forall>d. SubmitDeployment d \<in> set evs \<longrightarrow>
               (\<exists>ts r. d_id d = project_name (cfg_project (opt_config options)) @ ''-''
                                 @ show_nat ts @ ''-'' @ r))"
proof -
  let ?dc = "deploymentConfig_of options"
  have name: "dc_projectName ?dc = project_name (cfg_project (opt_config options))"
    by (simp add: deploymentConfig_of_def Let_def)
  obtain r0 w0 where dr: "deployToRuntime ?dc w = (r0, w0)"
    by fastforce
  from deployToRuntime_cases [OF dr] have c0: "clock w0 = clock w"
    and alt: "(\<exists>m. r0 = Throws (ErrorObj m) \<and> m \<noteq> [] \<and> calls w0 = calls w @ [DeployToRuntime ?dc])
          \<or> (\<exists>d ts rnd. r0 = Returns d
                \<and> d_id d = dc_projectName ?dc @ ''-'' @ show_nat ts @ ''-'' @ rnd
                \<and> calls w0 = calls w @ [DeployToRuntime ?dc, SubmitDeployment d])"
    by blast+
  from alt show ?thesis
  proof
    assume "\<exists>m. r0 = Throws (ErrorObj m) \<and> m \<noteq> [] \<and> calls w0 = calls w @ [DeployToRuntime ?dc]"
    then obtain m where m: "r0 = Throws (ErrorObj m)" "m \<noteq> []"
      "calls w0 = calls w @ [DeployToRuntime ?dc]"
      by blast
    have "orchestrateDeployment_try options w = (Throws (ErrorObj m), w0)"
      by (simp add: orchestrateDeployment_try_def Let_def bind_def dr m)
    with assms have "e = ErrorObj m" "w1 = w0"
      by simp_all
    with m c0 show ?thesis
      by auto
  next
    assume "\<exists>d ts rnd. r0 = Returns d
                \<and> d_id d = dc_projectName ?dc @ ''-'' @ show_nat ts @ ''-'' @ rnd
                \<and> calls w0 = calls w @ [DeployToRuntime ?dc, SubmitDeployment d]"
    then obtain d ts rnd where d: "r0 = Returns d"
      "d_id d = dc_projectName ?dc @ ''-'' @ show_nat ts @ ''-'' @ rnd"
      "calls w0 = calls w @ [DeployToRuntime ?dc, SubmitDeployment d]"
      by blast
    obtain r1 w1' where wr: "waitForDeployment (d_id d) 300000 w0 = (r1, w1')"
      by fastforce
    from waitForDeployment_cases [OF wr] have c1: "clock w1' = clock w0"
      and k1: "calls w1' = calls w0 @ [WaitForDeployment (d_id d)]"
      and alt1: "(\<exists>m. r1 = Throws (ErrorObj m) \<and> m \<noteq> [])
          \<or> (\<exists>d1 ep. r1 = Returns d1 \<and> d_status d1 = ACTIVE \<and> d_endpoint d1 = Some ep
                \<and> url ep \<noteq> [])"
      by blast+
    from alt1 show ?thesis
    proof
      assume "\<exists>m. r1 = Throws (ErrorObj m) \<and> m \<noteq> []"
      then obtain m where m: "r1 = Throws (ErrorObj m)" "m \<noteq> []"
        by blast
      have "orchestrateDeployment_try options w = (Throws (ErrorObj m), w1')"
        by (simp add: orchestrateDeployment_try_def Let_def bind_def dr d(1) wr m)
      with assms have "e = ErrorObj m" "w1 = w1'"
        by simp_all
      with m c0 c1 k1 d name show ?thesis
        by auto
    next
      assume "\<exists>d1 ep. r1 = Returns d1 \<and> d_status d1 = ACTIVE \<and> d_endpoint d1 = Some ep
                \<and> url ep \<noteq> []"
      then obtain d1 ep where d1: "r1 = Returns d1" "d_status d1 = ACTIVE"
        "d_endpoint d1 = Some ep" "url ep \<noteq> []"
        by blast
      have "\<exists>x w2. orchestrateDeployment_try options w = (Returns x, w2)"
        by (simp add: orchestrateDeployment_try_def Let_def bind_def dr d(1) wr d1
            verifyDeployment_url [OF d1(3,4)] saveDeploymentToHistory_eq ret_def)
      with assms show ?thesis
        by simp
    qed
  qed
qed

lemma createFailureResult_message:
  "m \<noteq> [] \<Longrightarrow>
   createFailureResult m info =
     \<lparr>success = False, dr_endpoint = None, dr_authConfig = None,
      error = Some \<lparr>code = ''DEPLOYMENT_FAILED'', err_message = m, err_phase = ''DEPLOYING'',
                    suggestion = None\<rparr>,
      resourceInfo = info\<rparr>"
  by (simp add: createFailureResult_def createDeploymentResult_def truthy_def or_default_def)

lemma orchestrateDeployment_failing_run:
  assumes "orchestrateDeployment_try options w = (Throws e, w1)"
  shows "orchestrateDeployment options w = orchestrateDeployment_catch options e w1"
  by (simp add: orchestrateDeployment_def try_catch_def assms)

lemma failedDeployment_of_fields:
  "d_id (failedDeployment_of options t0 t1 t2) = ''failed-'' @ show_nat t0"
  "d_status (failedDeployment_of options t0 t1 t2) = FAILED"
  by (simp_all add: failedDeployment_of_def Let_def)

lemma orchestrateDeployment_failing_run_eq:
  assumes "orchestrateDeployment_try options w = (Throws (ErrorObj m), w1)" and "m \<noteq> []"
  shows "orchestrateDeployment options w =
           (Returns \<lparr>success = False, dr_endpoint = None, dr_authConfig = None,
                     error = Some \<lparr>code = ''DEPLOYMENT_FAILED'', err_message = m,
                                   err_phase = ''DEPLOYING'', suggestion = None\<rparr>,
                     resourceInfo = Some (failureInfo_of options)\<rparr>,
            w1\<lparr>reads := reads w1 + 3,
               calls := calls w1 @
                 [RollbackDeployment
                    (failedDeployment_of options (clock w1 (reads w1))
                       (clock w1 (Suc (reads w1))) (clock w1 (Suc (Suc (reads w1)))))
                    (project_name (cfg_project (opt_config options))),
                  CleanupFailedDeployment
                    (d_id (failedDeployment_of options (clock w1 (reads w1))
                       (clock w1 (Suc (reads w1))) (clock w1 (Suc (Suc (reads w1))))))]\<rparr>)"
  by (simp add: orchestrateDeployment_failing_run [OF assms(1)] orchestrateDeployment_catch_eq
      createFailureResult_message [OF assms(2)] failedDeployment_of_fields)

lemma orchestrateDeployment_catch_with_eq:
  assumes "rollback (failedDeployment_of options (clock w1 (reads w1)) (clock w1 (Suc (reads w1)))
                       (clock w1 (Suc (Suc (reads w1)))))
             (project_name (cfg_project (opt_config options)))
             (w1\<lparr>reads := reads w1 + 3\<rparr>) = (Returns rr, w')"
  shows "orchestrateDeployment_catch_with rollback options e w1 =
           (Returns (createFailureResult
                       (case e of ErrorObj m \<Rightarrow> m | NonError \<Rightarrow> ''Unknown deployment error'')
                       (Some (failureInfo_of options))), w')"
  using assms
  by (simp add: orchestrateDeployment_catch_with_def bind_def date_now_def ret_def Let_def
      numeral_3_eq_3)

text \<open>
  C1. In every run of \<open>orchestrateDeployment\<close> in which a step of the \<open>try\<close> block
  throws (the deployment, the wait for it, the health verification or the saving of the
  history; preparing the configuration cannot throw), the function does not raise. It
  returns a \<open>DeploymentResult\<close> with \<open>success = false\<close> whose error carries the message of
  the step that failed, and \<open>rollbackDeployment\<close> has been called before it returns, after
  everything the failing run did. What the rollback reports has no part in the result: the
  \<open>catch\<close> block returns this same result over any rollback that returns, successful or
  not.
\<close>

theorem C1_failure_returned_after_rollback:
  assumes "orchestrateDeployment_try options w = (Throws e, w1)"
  shows "\<exists>m fd res w2.
           e = ErrorObj m
         \<and> res = \<lparr>success = False, dr_endpoint = None, dr_authConfig = None,
                   error = Some \<lparr>code = ''DEPLOYMENT_FAILED'', err_message = m,
                                 err_phase = ''DEPLOYING'', suggestion = None\<rparr>,
                   resourceInfo = Some (failureInfo_of options)\<rparr>
         \<and> fd = failedDeployment_of options (clock w1 (reads w1)) (clock w1 (Suc (reads w1)))
                  (clock w1 (Suc (Suc (reads w1))))
         \<and> orchestrateDeployment options w = (Returns res, w2)
         \<and> calls w2 = calls w1 @
               [RollbackDeployment fd (project_name (cfg_project (opt_config options))),
                CleanupFailedDeployment (d_id fd)]
         \<and> (\<forall>rollback rr w'.
               rollback fd (project_name (cfg_project (opt_config options)))
                 (w1\<lparr>reads := reads w1 + 3\<rparr>) = (Returns rr, w')
               \<longrightarrow> orchestrateDeployment_catch_with rollback options e w1 = (Returns res, w'))"
proof -
  from orchestrateDeployment_try_throws [OF assms]
  obtain m where m: "e = ErrorObj m" "m \<noteq> []"
    by blast
  from assms m have run: "orchestrateDeployment_try options w = (Throws (ErrorObj m), w1)"
    by simp
  let ?fd = "failedDeployment_of options (clock w1 (reads w1)) (clock w1 (Suc (reads w1)))
                  (clock w1 (Suc (Suc (reads w1))))"
  let ?res = "\<lparr>success = False, dr_endpoint = None, dr_authConfig = None,
                   error = Some \<lparr>code = ''DEPLOYMENT_FAILED'', err_message = m,
                                 err_phase = ''DEPLOYING'', suggestion = None\<rparr>,
                   resourceInfo = Some (failureInfo_of options)\<rparr>"
  let ?w2 = "w1\<lparr>reads := reads w1 + 3,
               calls := calls w1 @
                 [RollbackDeployment ?fd (project_name (cfg_project (opt_config options))),
                  CleanupFailedDeployment (d_id ?fd)]\<rparr>"
  have "orchestrateDeployment options w = (Returns ?res, ?w2)"
    by (rule orchestrateDeployment_failing_run_eq [OF run m(2)])
  moreover have "calls ?w2 = calls w1 @
                 [RollbackDeployment ?fd (project_name (cfg_project (opt_config options))),
                  CleanupFailedDeployment (d_id ?fd)]"
    by simp
  moreover have "\<forall>rollback rr w'.
               rollback ?fd (project_name (cfg_project (opt_config options)))
                 (w1\<lparr>reads := reads w1 + 3\<rparr>) = (Returns rr, w')
               \<longrightarrow> orchestrateDeployment_catch_with rollback options e w1 = (Returns ?res, w')"
    using m by (simp add: orchestrateDeployment_catch_with_eq createFailureResult_message)
  ultimately show ?thesis
    using m(1) by blast
qed

lemma try_no_image:
  "orchestrateDeployment_try options_no_image world0 =
     (Throws (ErrorObj ''Deployment prerequisites not met. Missing: Container image URI''),
      world0\<lparr>calls := [DeployToRuntime (deploymentConfig_of options_no_image)]\<rparr>)"
  by (simp add: orchestrateDeployment_try_def Let_def bind_def deployToRuntime_eq
      deploymentConfig_of_def options_no_image_def sample_config_def checkPrerequisites_def
      truthy_def world0_def)

text \<open>
  C1 at a launch without an image URI: the deployment step throws, the run returns the
  failure after the rollback, and the \<open>catch\<close> block returns the same failure over a
  rollback that reports that it failed.
\<close>

theorem C1_failure_returned_after_rollback_witness:
  "orchestrateDeployment_try options_no_image world0 =
     (Throws (ErrorObj ''Deployment prerequisites not met. Missing: Container image URI''),
      world0\<lparr>calls := [DeployToRuntime (deploymentConfig_of options_no_image)]\<rparr>)
   \<and> (\<exists>fd w2.
         orchestrateDeployment options_no_image world0 =
             (Returns \<lparr>success = False, dr_endpoint = None, dr_authConfig = None,
                       error = Some \<lparr>code = ''DEPLOYMENT_FAILED'',
                         err_message =
                           ''Deployment prerequisites not met. Missing: Container image URI'',
                         err_phase = ''DEPLOYING'', suggestion = None\<rparr>,
                       resourceInfo = Some (failureInfo_of options_no_image)\<rparr>, w2)
         \<and> calls w2 =
               [DeployToRuntime (deploymentConfig_of options_no_image),
                RollbackDeployment fd ''demo'', CleanupFailedDeployment (d_id fd)])
   \<and> fst (orchestrateDeployment_catch_with rollback_failing options_no_image
            (ErrorObj ''Deployment prerequisites not met. Missing: Container image URI'')
            (world0\<lparr>calls := [DeployToRuntime (deploymentConfig_of options_no_image)]\<rparr>)) =
       Returns \<lparr>success = False, dr_endpoint = None, dr_authConfig = None,
                 error = Some \<lparr>code = ''DEPLOYMENT_FAILED'',
                   err_message =
                     ''Deployment prerequisites not met. Missing: Container image URI'',
                   err_phase = ''DEPLOYING'', suggestion = None\<rparr>,
                 resourceInfo = Some (failureInfo_of options_no_image)\<rparr>"
proof -
  let ?w1 = "world0\<lparr>calls := [DeployToRuntime (deploymentConfig_of options_no_image)]\<rparr>"
  have name: "project_name (cfg_project (opt_config options_no_image)) = ''demo''"
    by (simp add: options_no_image_def sample_config_def)
  have rb: "rollback_failing fd p w =
              (Returns \<lparr>rb_success = False,
                 rb_message = ''Cleanup completed but restoration failed: quota exceeded'',
                 cleanedResources = [''Deployment '' @ d_id fd], restoredVersion = None\<rparr>, w)"
    for fd p w
    by (simp add: rollback_failing_def ret_def)
  from C1_failure_returned_after_rollback [OF try_no_image]
  obtain m fd res w2 where
    m: "ErrorObj ''Deployment prerequisites not met. Missing: Container image URI'' = ErrorObj m"
    and res: "res = \<lparr>success = False, dr_endpoint = None, dr_authConfig = None,
                   error = Some \<lparr>code = ''DEPLOYMENT_FAILED'', err_message = m,
                                 err_phase = ''DEPLOYING'', suggestion = None\<rparr>,
                   resourceInfo = Some (failureInfo_of options_no_image)\<rparr>"
    and run: "orchestrateDeployment options_no_image world0 = (Returns res, w2)"
    and trace: "calls w2 = calls ?w1 @
               [RollbackDeployment fd (project_name (cfg_project (opt_config options_no_image))),
                CleanupFailedDeployment (d_id fd)]"
    and any: "\<forall>rollback rr w'.
               rollback fd (project_name (cfg_project (opt_config options_no_image)))
                 (?w1\<lparr>reads := reads ?w1 + 3\<rparr>) = (Returns rr, w')
               \<longrightarrow> orchestrateDeployment_catch_with rollback options_no_image
                     (ErrorObj ''Deployment prerequisites not met. Missing: Container image URI'')
                     ?w1 = (Returns res, w')"
    by blast
  from m have m': "m = ''Deployment prerequisites not met. Missing: Container image URI''"
    by simp
  from any rb have "orchestrateDeployment_catch_with rollback_failing options_no_image
                     (ErrorObj ''Deployment prerequisites not met. Missing: Container image URI'')
                     ?w1 = (Returns res, ?w1\<lparr>reads := reads ?w1 + 3\<rparr>)"
    by blast
  then have "fst (orchestrateDeployment_catch_with rollback_failing options_no_image
                     (ErrorObj ''Deployment prerequisites not met. Missing: Container image URI'')
                     ?w1) = Returns res"
    by simp
  with run trace show ?thesis
    unfolding res m' by (simp add: try_no_image name)
qed

text \<open>
  C10. In every failing run of \<open>orchestrateDeployment\<close>, the record handed to
  \<open>rollbackDeployment\<close> is the one the \<open>catch\<close> block builds: its state is \<open>FAILED\<close> and
  its identifier is \<open>failed-\<close> followed by the clock reading at that moment, which is
  the identifier of no deployment the run submitted to the runtime. The guard of
  \<open>rollbackDeployment\<close> therefore passes and \<open>cleanupFailedDeployment\<close> is called on
  that identifier, whatever the run had done before it failed.
\<close>

theorem C10_rollback_receives_synthesized_record:
  assumes "orchestrateDeployment_try options w = (Throws e, w1)"
  shows "\<exists>evs fd r w2.
           calls w1 = calls w @ evs
         \<and> orchestrateDeployment options w = (Returns r, w2)
         \<and> fd = failedDeployment_of options (clock w1 (reads w1)) (clock w1 (Suc (reads w1)))
                  (clock w1 (Suc (Suc (reads w1))))
         \<and> calls w2 = calls w1 @
               [RollbackDeployment fd (project_name (cfg_project (opt_config options))),
                CleanupFailedDeployment (d_id fd)]
         \<and> d_status fd = FAILED \<and> isDeploymentFailed fd
         \<and> d_id fd = ''failed-'' @ show_nat (clock w1 (reads w1))
         \<and> (\<forall>d. SubmitDeployment d \<in> set evs \<longrightarrow> d_id d \<noteq> d_id fd)"
proof -
  from orchestrateDeployment_try_throws [OF assms]
  obtain m evs where m: "e = ErrorObj m" "m \<noteq> []" and evs: "calls w1 = calls w @ evs"
    and ids: "\<forall>d. SubmitDeployment d \<in> set evs \<longrightarrow>
               (\<exists>ts r. d_id d = project_name (cfg_project (opt_config options)) @ ''-''
                                 @ show_nat ts @ ''-'' @ r)"
    by blast
  let ?fd = "failedDeployment_of options (clock w1 (reads w1)) (clock w1 (Suc (reads w1)))
                  (clock w1 (Suc (Suc (reads w1))))"
  from assms m have run: "orchestrateDeployment_try options w = (Throws (ErrorObj m), w1)"
    by simp
  have fresh: "\<forall>d. SubmitDeployment d \<in> set evs \<longrightarrow> d_id d \<noteq> d_id ?fd"
  proof (intro allI impI)
    fix d assume "SubmitDeployment d \<in> set evs"
    with ids obtain ts r where
      "d_id d = project_name (cfg_project (opt_config options)) @ ''-'' @ show_nat ts @ ''-'' @ r"
      by blast
    then show "d_id d \<noteq> d_id ?fd"
      using failed_id_fresh [of "clock w1 (reads w1)"
          "project_name (cfg_project (opt_config options))" ts r]
      by (simp add: failedDeployment_of_fields)
  qed
  let ?r = "\<lparr>success = False, dr_endpoint = None, dr_authConfig = None,
             error = Some \<lparr>code = ''DEPLOYMENT_FAILED'', err_message = m,
                           err_phase = ''DEPLOYING'', suggestion = None\<rparr>,
             resourceInfo = Some (failureInfo_of options)\<rparr>"
  let ?w2 = "w1\<lparr>reads := reads w1 + 3,
               calls := calls w1 @
                 [RollbackDeployment ?fd (project_name (cfg_project (opt_config options))),
                  CleanupFailedDeployment (d_id ?fd)]\<rparr>"
  have "orchestrateDeployment options w = (Returns ?r, ?w2)"
    by (rule orchestrateDeployment_failing_run_eq [OF run m(2)])
  moreover have "calls ?w2 = calls w1 @
                 [RollbackDeployment ?fd (project_name (cfg_project (opt_config options))),
                  CleanupFailedDeployment (d_id ?fd)]"
    by simp
  moreover have "d_status ?fd = FAILED" "isDeploymentFailed ?fd"
    "d_id ?fd = ''failed-'' @ show_nat (clock w1 (reads w1))"
    by (simp_all add: failedDeployment_of_fields isDeploymentFailed_def)
  ultimately show ?thesis
    using evs fresh by blast
qed

lemma show_nat_samples:
  "show_nat 300000 = ''300000''"
  "show_nat 1700000000000 = ''1700000000000''"
  "show_nat 1700000400005 = ''1700000400005''"
  by (simp_all add: show_nat.simps)

lemma try_slow:
  "orchestrateDeployment_try options_ready world_slow =
     (Throws (ErrorObj ''Deployment demo-1700000000000-k3x9qa timed out after 300000ms''),
      snd (orchestrateDeployment_try options_ready world_slow))"
  by (simp add: orchestrateDeployment_try_def Let_def bind_def deployToRuntime_eq
      waitForDeployment_eq deploymentConfig_of_def options_ready_def sample_config_def
      checkPrerequisites_def truthy_def world_slow_def show_nat_samples)


lemma try_slow_world:
  "reads (snd (orchestrateDeployment_try options_ready world_slow)) = 5"
  "clock (snd (orchestrateDeployment_try options_ready world_slow)) = clock world_slow"
  "WaitForDeployment ''demo-1700000000000-k3x9qa''
     \<in> set (calls (snd (orchestrateDeployment_try options_ready world_slow)))"
  "\<exists>d. SubmitDeployment d
     \<in> set (calls (snd (orchestrateDeployment_try options_ready world_slow)))"
  by (simp_all add: orchestrateDeployment_try_def Let_def bind_def deployToRuntime_eq
      waitForDeployment_eq deploymentConfig_of_def options_ready_def sample_config_def
      checkPrerequisites_def truthy_def world_slow_def show_nat_samples)

text \<open>
  C10 at a run that submits a deployment and then times out waiting for it, and at a run
  that fails on its prerequisites before anything is submitted: in both the cleanup is
  called on the identifier made in the \<open>catch\<close> block.
\<close>

theorem C10_rollback_receives_synthesized_record_witness:
  "orchestrateDeployment_try options_ready world_slow =
     (Throws (ErrorObj ''Deployment demo-1700000000000-k3x9qa timed out after 300000ms''),
      snd (orchestrateDeployment_try options_ready world_slow))
   \<and> (\<exists>evs fd r w2.
         calls (snd (orchestrateDeployment_try options_ready world_slow))
           = calls world_slow @ evs
       \<and> orchestrateDeployment options_ready world_slow = (Returns r, w2)
       \<and> calls w2 = calls (snd (orchestrateDeployment_try options_ready world_slow)) @
             [RollbackDeployment fd ''demo'', CleanupFailedDeployment (d_id fd)]
       \<and> d_status fd = FAILED \<and> isDeploymentFailed fd
       \<and> d_id fd = ''failed-1700000400005''
       \<and> WaitForDeployment ''demo-1700000000000-k3x9qa'' \<in> set evs
       \<and> (\<exists>d. SubmitDeployment d \<in> set evs)
       \<and> (\<forall>d. SubmitDeployment d \<in> set evs \<longrightarrow> d_id d \<noteq> d_id fd))
   \<and> orchestrateDeployment_try options_no_image world0 =
     (Throws (ErrorObj ''Deployment prerequisites not met. Missing: Container image URI''),
      world0\<lparr>calls := [DeployToRuntime (deploymentConfig_of options_no_image)]\<rparr>)
   \<and> (\<exists>fd r w2.
         orchestrateDeployment options_no_image world0 = (Returns r, w2)
       \<and> calls w2 = [DeployToRuntime (deploymentConfig_of options_no_image),
                       RollbackDeployment fd ''demo'', CleanupFailedDeployment (d_id fd)]
       \<and> d_status fd = FAILED \<and> d_id fd = ''failed-1700000000000'')"
proof -
  have name: "project_name (cfg_project (opt_config options_ready)) = ''demo''"
    "project_name (cfg_project (opt_config options_no_image)) = ''demo''"
    by (simp_all add: options_ready_def options_no_image_def sample_config_def)
  have t5: "clock world_slow 5 = 1700000400005" and t0: "clock world0 0 = 1700000000000"
    and r0: "reads world0 = 0" and k0: "calls world0 = []" and ks: "calls world_slow = []"
    by (simp_all add: world_slow_def world0_def)
  from C10_rollback_receives_synthesized_record [OF try_slow]
  have slow: "\<exists>evs fd r w2.
         calls (snd (orchestrateDeployment_try options_ready world_slow))
           = calls world_slow @ evs
       \<and> orchestrateDeployment options_ready world_slow = (Returns r, w2)
       \<and> calls w2 = calls (snd (orchestrateDeployment_try options_ready world_slow)) @
             [RollbackDeployment fd ''demo'', CleanupFailedDeployment (d_id fd)]
       \<and> d_status fd = FAILED \<and> isDeploymentFailed fd
       \<and> d_id fd = ''failed-1700000400005''
       \<and> WaitForDeployment ''demo-1700000000000-k3x9qa'' \<in> set evs
       \<and> (\<exists>d. SubmitDeployment d \<in> set evs)
       \<and> (\<forall>d. SubmitDeployment d \<in> set evs \<longrightarrow> d_id d \<noteq> d_id fd)"
    using try_slow_world(3,4)
    by (simp add: try_slow_world(1,2) name t5 ks show_nat_samples) blast
  from C10_rollback_receives_synthesized_record [OF try_no_image]
  have quick: "\<exists>fd r w2.
         orchestrateDeployment options_no_image world0 = (Returns r, w2)
       \<and> calls w2 = [DeployToRuntime (deploymentConfig_of options_no_image),
                       RollbackDeployment fd ''demo'', CleanupFailedDeployment (d_id fd)]
       \<and> d_status fd = FAILED \<and> d_id fd = ''failed-1700000000000''"
    by (simp add: name t0 r0 k0 show_nat_samples) blast
  show ?thesis
    using try_slow try_no_image slow quick by blast
qed

section \<open>Properties of the gateway\<close>

lemma split_on_no_sep: "c \<notin> set s \<Longrightarrow> split_on c s = [s]"
  by (induction s) auto

lemma split_on_first: "c \<notin> set p \<Longrightarrow> split_on c (p @ c # s) = p # split_on c s"
  by (induction p) auto

lemma split_Bearer:
  "CHR '' '' \<notin> set tok \<Longrightarrow> split_on CHR '' '' (''Bearer '' @ tok) = [''Bearer'', tok]"
  using split_on_first [of "CHR '' ''" "''Bearer''" tok] by (simp add: split_on_no_sep)

lemma extractToken_Bearer:
  assumes "or_else (hs ''authorization'') (hs ''Authorization'') = Some (''Bearer '' @ tok)"
    and "CHR '' '' \<notin> set tok"
  shows "extractToken hs = Some tok"
  using assms(1) split_Bearer [OF assms(2)]
  by (simp add: extractToken_def Let_def)

text \<open>
  C9, as stated: token extraction finds the header under every capitalisation of its name.
  It fails for a request that carries \<open>AUTHORIZATION: Bearer abc123\<close>:
  \<open>extractToken\<close> reads the two keys \<open>authorization\<close> and \<open>Authorization\<close> and no other.
\<close>

theorem C9_counterexample:
  "toLowerCase ''AUTHORIZATION'' = ''authorization''
   \<and> [''AUTHORIZATION'' \<mapsto> ''Bearer abc123''] ''AUTHORIZATION'' = Some ''Bearer abc123''
   \<and> extractToken [''AUTHORIZATION'' \<mapsto> ''Bearer abc123''] = None"
  by (simp add: toLowerCase.simps toLowerCase_char_def kelvin_sign_def
      capital_I_with_dot_def extractToken_def or_else_def truthy_def)

text \<open>
  C9, amended. Token extraction knows the header under the two spellings
  \<open>authorization\<close> and \<open>Authorization\<close>: when the entry \<open>authorization\<close>, or else (that
  entry being absent or empty) the entry \<open>Authorization\<close>, has the value
  \<open>Bearer <token>\<close> with a token free of spaces, \<open>extractToken\<close> returns that token;
  when neither entry holds a non-empty value it returns null, whatever other
  capitalisations of the name the map contains.
\<close>

theorem C9_token_under_two_spellings:
  "(hs ''authorization'' = Some (''Bearer '' @ tok) \<and> CHR '' '' \<notin> set tok
      \<longrightarrow> extractToken hs = Some tok)
   \<and> (\<not> truthy (hs ''authorization'') \<and> hs ''Authorization'' = Some (''Bearer '' @ tok)
      \<and> CHR '' '' \<notin> set tok \<longrightarrow> extractToken hs = Some tok)
   \<and> (\<not> truthy (hs ''authorization'') \<and> \<not> truthy (hs ''Authorization'')
      \<longrightarrow> extractToken hs = None)"
proof (intro conjI impI)
  assume "hs ''authorization'' = Some (''Bearer '' @ tok) \<and> CHR '' '' \<notin> set tok"
  then show "extractToken hs = Some tok"
    by (intro extractToken_Bearer) (simp_all add: or_else_def truthy_def)
next
  assume "\<not> truthy (hs ''authorization'') \<and> hs ''Authorization'' = Some (''Bearer '' @ tok)
      \<and> CHR '' '' \<notin> set tok"
  then show "extractToken hs = Some tok"
    by (intro extractToken_Bearer) (simp_all add: or_else_def)
next
  assume "\<not> truthy (hs ''authorization'') \<and> \<not> truthy (hs ''Authorization'')"
  then show "extractToken hs = None"
    by (auto simp: extractToken_def or_else_def truthy_def Let_def split: option.splits)
qed

text \<open>C9 (amended) at the two spellings that are read and at one that is not.\<close>

theorem C9_token_under_two_spellings_witness:
  "[''authorization'' \<mapsto> ''Bearer abc123''] ''authorization'' = Some (''Bearer '' @ ''abc123'')
   \<and> CHR '' '' \<notin> set ''abc123''
   \<and> extractToken [''authorization'' \<mapsto> ''Bearer abc123''] = Some ''abc123''
   \<and> \<not> truthy ([''Authorization'' \<mapsto> ''Bearer abc123''] ''authorization'')
   \<and> [''Authorization'' \<mapsto> ''Bearer abc123''] ''Authorization'' = Some (''Bearer '' @ ''abc123'')
   \<and> extractToken [''Authorization'' \<mapsto> ''Bearer abc123''] = Some ''abc123''
   \<and> \<not> truthy ([''AuThOrIzAtIoN'' \<mapsto> ''Bearer abc123''] ''authorization'')
   \<and> \<not> truthy ([''AuThOrIzAtIoN'' \<mapsto> ''Bearer abc123''] ''Authorization'')
   \<and> extractToken [''AuThOrIzAtIoN'' \<mapsto> ''Bearer abc123''] = None"
  using C9_token_under_two_spellings [of "[''authorization'' \<mapsto> ''Bearer abc123'']" "''abc123''"]
    C9_token_under_two_spellings [of "[''Authorization'' \<mapsto> ''Bearer abc123'']" "''abc123''"]
    C9_token_under_two_spellings [of "[''AuThOrIzAtIoN'' \<mapsto> ''Bearer abc123'']" "''abc123''"]
  by (simp add: truthy_def)

lemma extractToken_rejects:
  assumes "no_bearer_authorization hs"
  shows "extractToken hs = None"
proof (cases "or_else (hs ''authorization'') (hs ''Authorization'')")
  case None
  then show ?thesis by (simp add: extractToken_def)
next
  case (Some v)
  have low: "toLowerCase ''authorization'' = ''authorization''"
    "toLowerCase ''Authorization'' = ''authorization''"
    by (simp_all add: toLowerCase.simps toLowerCase_char_def kelvin_sign_def
        capital_I_with_dot_def)
  from Some have "hs ''authorization'' = Some v \<or> hs ''Authorization'' = Some v"
    by (auto simp: or_else_def split: if_splits)
  with assms [unfolded no_bearer_authorization_def] low have "length (split_on CHR '' '' v) \<noteq> 2 \<or> split_on CHR '' '' v ! 0 \<noteq> ''Bearer''"
    by blast
  with Some show ?thesis
    by (auto simp: extractToken_def Let_def)
qed

lemma validateRequest_rejects:
  "extractToken hs = None \<Longrightarrow>
   validateRequest hs g =
     (Returns \<lparr>valid = False, userId = None,
               tv_error = Some ''Missing or invalid Authorization header''\<rparr>, g)"
  by (simp add: validateRequest_def truthy_def ret_def)

lemma handleRequest_rejects:
  "extractToken (headers request) = None \<Longrightarrow>
   handleRequest request g =
     (Returns (createUnauthorizedResponse ''Missing or invalid Authorization header''), g)"
  by (simp add: handleRequest_def handleRequest_operation_def withErrorHandling_def bind_def
      validateRequest_rejects ret_def or_default_def)

text \<open>
  C3. For every request that carries no Authorization header, or one whose value does not
  have the scheme \<open>Bearer\<close> or is not exactly two parts separated by a space,
  \<open>handleRequest\<close> returns the response with status 401 and the header
  \<open>WWW-Authenticate: Bearer\<close>. The three shapes give one and the same validation failure,
  and the handler's state is left as it was: no request has gone to the backend (nor to
  the identity provider) and no connection has been made, so \<open>forwardRequest\<close> was not
  called.
\<close>

theorem C3_unauthenticated_request_gets_401:
  assumes "no_bearer_authorization (headers request)"
  shows "\<exists>response.
           handleRequest request g = (Returns response, g)
         \<and> sr_status response = 401
         \<and> map_of (sr_headers response) ''WWW-Authenticate'' = Some ''Bearer''
         \<and> validateRequest (headers request) g =
             (Returns \<lparr>valid = False, userId = None,
                       tv_error = Some ''Missing or invalid Authorization header''\<rparr>, g)"
proof -
  have none: "extractToken (headers request) = None"
    using assms by (rule extractToken_rejects)
  show ?thesis
    by (simp add: handleRequest_rejects [OF none] validateRequest_rejects [OF none]
        createUnauthorizedResponse_def)
qed

lemma no_bearer_samples:
  "no_bearer_authorization Map.empty"
  "no_bearer_authorization [''Authorization'' \<mapsto> ''Basic dXNlcjpwdw=='']"
  "no_bearer_authorization [''authorization'' \<mapsto> ''Bearer abc 123'']"
  by (auto simp: no_bearer_authorization_def split: if_splits)

text \<open>
  C3 at a request without headers, at one with the \<open>Basic\<close> scheme and at one whose value
  has three parts.
\<close>

theorem C3_unauthenticated_request_gets_401_witness:
  "no_bearer_authorization (headers (request_with Map.empty))
   \<and> no_bearer_authorization
       (headers (request_with [''Authorization'' \<mapsto> ''Basic dXNlcjpwdw=='']))
   \<and> no_bearer_authorization
       (headers (request_with [''authorization'' \<mapsto> ''Bearer abc 123'']))
   \<and> handleRequest (request_with Map.empty) gateway0 =
       (Returns (createUnauthorizedResponse ''Missing or invalid Authorization header''),
        gateway0)
   \<and> handleRequest (request_with [''Authorization'' \<mapsto> ''Basic dXNlcjpwdw=='']) gateway0 =
       (Returns (createUnauthorizedResponse ''Missing or invalid Authorization header''),
        gateway0)
   \<and> handleRequest (request_with [''authorization'' \<mapsto> ''Bearer abc 123'']) gateway0 =
       (Returns (createUnauthorizedResponse ''Missing or invalid Authorization header''),
        gateway0)
   \<and> sr_status (createUnauthorizedResponse ''Missing or invalid Authorization header'') = 401
   \<and> traffic gateway0 = []"
proof -
  have h: "headers (request_with hs) = hs" for hs
    by (simp add: request_with_def)
  have r: "handleRequest (request_with hs) gateway0 =
       (Returns (createUnauthorizedResponse ''Missing or invalid Authorization header''),
        gateway0)" if "no_bearer_authorization hs" for hs
  proof -
    from that have "no_bearer_authorization (headers (request_with hs))"
      by (simp add: h)
    from C3_unauthenticated_request_gets_401 [OF this, of gateway0]
    obtain response where resp: "handleRequest (request_with hs) gateway0 = (Returns response, gateway0)"
      by blast
    moreover have "handleRequest (request_with hs) gateway0 =
       (Returns (createUnauthorizedResponse ''Missing or invalid Authorization header''),
        gateway0)"
      using that by (simp add: handleRequest_rejects extractToken_rejects h)
    ultimately show ?thesis
      by simp
  qed
  show ?thesis
    using no_bearer_samples r [OF no_bearer_samples(1)] r [OF no_bearer_samples(2)]
      r [OF no_bearer_samples(3)]
    by (simp add: h createUnauthorizedResponse_def gateway0_def)
qed

lemma status_of_categorized:
  "getStatusCode (categorizeError m) =
     (if isNetworkError (toLowerCase m) then 503
      else if isStreamError (toLowerCase m) then 500
      else if isAuthError (toLowerCase m) then 401
      else 500)"
  by (simp add: getStatusCode_def categorizeError_def Let_def)

lemma lowered_samples:
  "toLowerCase ''connect ECONNREFUSED 127.0.0.1:8000'' = ''connect econnrefused 127.0.0.1:8000''"
  "toLowerCase ''Network token rejected'' = ''network token rejected''"
  "toLowerCase ''Stream closed: token expired'' = ''stream closed: token expired''"
  "toLowerCase ''Token has expired'' = ''token has expired''"
  "toLowerCase ''Unexpected end of JSON input'' = ''unexpected end of json input''"
  by (simp_all add: toLowerCase.simps toLowerCase_char_def kelvin_sign_def
      capital_I_with_dot_def)

text \<open>
  C8. The claim: whatever an operation wrapped by \<open>withErrorHandling\<close> throws, nothing
  reaches the caller; the result is the operation's value or a structured error response.
  The \<open>catch\<close> block hands the thrown value to \<open>categorizeError\<close>, which evaluates
  \<open>error.message.toLowerCase()\<close> without asking whether the value is an \<open>Error\<close>. For an
  operation that throws a value without a message (a string, say) this raises a
  \<open>TypeError\<close> inside the \<open>catch\<close> block, and \<open>withErrorHandling\<close> throws it to its caller,
  in whatever state the handler is. For operations that throw an \<open>Error\<close> the \<open>catch\<close>
  block does return the response: 503 for a refused connection, 503 for a message with a
  network and an authentication marker, 500 for one with a stream and an authentication
  marker, 401 for an expired token, 500 for a parse error; and the value of an operation
  that returns is passed on.
\<close>

theorem C8_thrown_non_Error_escapes:
  "withErrorHandling (throw NonError) g
     = (Throws (ErrorObj ''Cannot read properties of undefined (reading 'toLowerCase')''), g)
   \<and> (\<exists>response.
         withErrorHandling (failing_with ''connect ECONNREFUSED 127.0.0.1:8000'') g
           = (Returns (Inr response), g) \<and> sr_status response = 503)
   \<and> (\<exists>response.
         withErrorHandling (failing_with ''Network token rejected'') g
           = (Returns (Inr response), g) \<and> sr_status response = 503)
   \<and> (\<exists>response.
         withErrorHandling (failing_with ''Stream closed: token expired'') g
           = (Returns (Inr response), g) \<and> sr_status response = 500)
   \<and> (\<exists>response.
         withErrorHandling (failing_with ''Token has expired'') g
           = (Returns (Inr response), g) \<and> sr_status response = 401)
   \<and> (\<exists>response.
         withErrorHandling (failing_with ''Unexpected end of JSON input'') g
           = (Returns (Inr response), g) \<and> sr_status response = 500)
   \<and> withErrorHandling (ret (createUnauthorizedResponse ''Invalid token'')) g
       = (Returns (Inl (createUnauthorizedResponse ''Invalid token'')), g)"
  by (simp add: withErrorHandling_def throw_def ret_def failing_with_def
      createErrorResponse_def status_of_categorized lowered_samples isNetworkError_def
      isStreamError_def isAuthError_def)

lemma streamResponse_loop_shape:
  "\<exists>ds t. streamResponse_loop now decode st k upstream = ds @ [t]
         \<and> (\<forall>c \<in> set ds. ctype c = DATA) \<and> (ctype t = END \<or> ctype t = ERROR)"
proof (induction upstream arbitrary: st k)
  case Nil
  show ?case by simp
next
  case (Cons x upstream)
  show ?case
  proof (cases x)
    case (Chunk v)
    obtain decoded st' where d: "decode st v = (decoded, st')"
      by fastforce
    from Cons.IH [of st' "Suc k"] obtain ds t where
      "streamResponse_loop now decode st' (Suc k) upstream = ds @ [t]"
      "\<forall>c \<in> set ds. ctype c = DATA" "ctype t = END \<or> ctype t = ERROR"
      by blast
    then have "streamResponse_loop now decode st k (x # upstream)
                 = (\<lparr>ctype = DATA, payload = Text decoded, timestamp = now k\<rparr> # ds) @ [t]
               \<and> (\<forall>c \<in> set (\<lparr>ctype = DATA, payload = Text decoded, timestamp = now k\<rparr> # ds).
                     ctype c = DATA)
               \<and> (ctype t = END \<or> ctype t = ERROR)"
      by (simp add: Chunk d)
    then show ?thesis by blast
  next
    case Done
    then show ?thesis by simp
  next
    case (Failed e)
    then show ?thesis by simp
  qed
qed

lemma streamResponse_shape:
  "\<exists>ds t. streamResponse now decode st0 request mcpResponse = ds @ [t]
         \<and> (\<forall>c \<in> set ds. ctype c = DATA) \<and> (ctype t = END \<or> ctype t = ERROR)"
proof (cases "r_body mcpResponse")
  case None
  then show ?thesis by (simp add: streamResponse_def)
next
  case (Some upstream)
  then show ?thesis
    using streamResponse_loop_shape [of now decode st0 0 upstream]
    by (simp add: streamResponse_def)
qed

lemma createChunkedBody_loop_stops:
  "\<forall>c \<in> set ds. \<not> terminal c \<Longrightarrow> terminal t \<Longrightarrow>
   createChunkedBody_loop (ds @ t # rest) controller =
     controller\<lparr>enqueued := enqueued controller @ ds @ [t], closed := True\<rparr>"
  by (induction ds arbitrary: controller) (auto simp: terminal_def Let_def)

lemma createChunkedBody_stops:
  "\<forall>c \<in> set ds. \<not> terminal c \<Longrightarrow> terminal t \<Longrightarrow>
   createChunkedBody (ds @ t # rest) = \<lparr>enqueued = ds @ [t], closed = True\<rparr>"
  by (simp add: createChunkedBody_def createChunkedBody_loop_stops)

text \<open>
  C4. For every backend response, the chunks that \<open>streamResponse\<close> yields are data
  chunks followed by one last chunk of type \<open>end\<close> or \<open>error\<close>: the sequence is finite,
  holds exactly one terminal chunk, and that chunk is its last element. Fed with this
  sequence, \<open>createChunkedBody\<close> enqueues all of it and closes the stream. Fed with any
  sequence, it closes the stream right after the first terminal chunk and enqueues nothing
  that follows.
\<close>

theorem C4_stream_ends_with_one_terminal_chunk:
  "(\<exists>ds t. streamResponse now decode st0 request mcpResponse = ds @ [t]
       \<and> (\<forall>c \<in> set ds. ctype c = DATA) \<and> (ctype t = END \<or> ctype t = ERROR))
   \<and> length (filter terminal (streamResponse now decode st0 request mcpResponse)) = 1
   \<and> createChunkedBody (streamResponse now decode st0 request mcpResponse) =
       \<lparr>enqueued = streamResponse now decode st0 request mcpResponse, closed = True\<rparr>
   \<and> (\<forall>ds t rest. (\<forall>c \<in> set ds. \<not> terminal c) \<and> terminal t \<longrightarrow>
         createChunkedBody (ds @ t # rest) = \<lparr>enqueued = ds @ [t], closed = True\<rparr>)"
proof -
  from streamResponse_shape [of now decode st0 request mcpResponse]
  obtain ds t where shape: "streamResponse now decode st0 request mcpResponse = ds @ [t]"
    "\<forall>c \<in> set ds. ctype c = DATA" "ctype t = END \<or> ctype t = ERROR"
    by blast
  from shape(2) have nt: "\<forall>c \<in> set ds. \<not> terminal c"
    by (simp add: terminal_def)
  from shape(3) have t: "terminal t"
    by (simp add: terminal_def)
  from nt have "filter terminal ds = []"
    by (simp add: filter_empty_conv)
  with t have one: "length (filter terminal (ds @ [t])) = 1"
    by simp
  have body: "createChunkedBody (ds @ [t]) = \<lparr>enqueued = ds @ [t], closed = True\<rparr>"
    using createChunkedBody_stops [OF nt t, of "[]"] by simp
  show ?thesis
    using shape one body createChunkedBody_stops unfolding shape(1) by blast
qed

text \<open>
  C4 at a body of two chunks, at a body that fails after its first chunk, at a response
  without body, and at a chunk sequence that goes on after its first terminal chunk.
\<close>

theorem C4_stream_ends_with_one_terminal_chunk_witness:
  "streamResponse (\<lambda>k. int k) (\<lambda>st v. (v, st)) () (request_with Map.empty)
       (sample_response (Some [Chunk ''ab'', Chunk ''cd'', Done]))
     = [data_chunk ''ab'' 0, data_chunk ''cd'' 1, end_chunk 2]
   \<and> createChunkedBody [data_chunk ''ab'' 0, data_chunk ''cd'' 1, end_chunk 2]
     = \<lparr>enqueued = [data_chunk ''ab'' 0, data_chunk ''cd'' 1, end_chunk 2], closed = True\<rparr>
   \<and> streamResponse (\<lambda>k. int k) (\<lambda>st v. (v, st)) () (request_with Map.empty)
       (sample_response (Some [Chunk ''ab'', Failed (ErrorObj ''socket hang up''), Chunk ''cd'']))
     = [data_chunk ''ab'' 0, error_chunk ''socket hang up'' 1]
   \<and> streamResponse (\<lambda>k. int k) (\<lambda>st v. (v, st)) () (request_with Map.empty)
       (sample_response None)
     = [error_chunk ''No response body'' 0]
   \<and> \<not> terminal (data_chunk ''ab'' 0) \<and> terminal (end_chunk 1)
   \<and> createChunkedBody
       ([data_chunk ''ab'' 0] @ end_chunk 1 # [data_chunk ''cd'' 2, error_chunk ''late'' 3])
     = \<lparr>enqueued = [data_chunk ''ab'' 0] @ [end_chunk 1], closed = True\<rparr>"
proof -
  let ?run = "streamResponse (\<lambda>k. int k) (\<lambda>st v. (v, st)) () (request_with Map.empty)"
  have s1: "?run (sample_response (Some [Chunk ''ab'', Chunk ''cd'', Done]))
              = [data_chunk ''ab'' 0, data_chunk ''cd'' 1, end_chunk 2]"
    and s2: "?run (sample_response (Some [Chunk ''ab'', Failed (ErrorObj ''socket hang up''),
                                            Chunk ''cd'']))
              = [data_chunk ''ab'' 0, error_chunk ''socket hang up'' 1]"
    and s3: "?run (sample_response None) = [error_chunk ''No response body'' 0]"
    by (simp_all add: streamResponse_def sample_response_def data_chunk_def end_chunk_def
        error_chunk_def)
  have t: "\<not> terminal (data_chunk ''ab'' 0)" "terminal (end_chunk 1)"
    by (simp_all add: terminal_def data_chunk_def end_chunk_def)
  note c4 = C4_stream_ends_with_one_terminal_chunk
      [of "\<lambda>k. int k" "\<lambda>st v. (v, st)" "()" "request_with Map.empty"
          "sample_response (Some [Chunk ''ab'', Chunk ''cd'', Done])"]
  from c4 have "createChunkedBody (?run (sample_response (Some [Chunk ''ab'', Chunk ''cd'', Done])))
      = \<lparr>enqueued = ?run (sample_response (Some [Chunk ''ab'', Chunk ''cd'', Done])),
         closed = True\<rparr>"
    by blast
  then have b1: "createChunkedBody [data_chunk ''ab'' 0, data_chunk ''cd'' 1, end_chunk 2]
     = \<lparr>enqueued = [data_chunk ''ab'' 0, data_chunk ''cd'' 1, end_chunk 2], closed = True\<rparr>"
    unfolding s1 .
  from c4 have "\<forall>ds t rest. (\<forall>c \<in> set ds. \<not> terminal c) \<and> terminal t \<longrightarrow>
         createChunkedBody (ds @ t # rest) = \<lparr>enqueued = ds @ [t], closed = True\<rparr>"
    by blast
  then have "(\<forall>c \<in> set [data_chunk ''ab'' 0]. \<not> terminal c) \<and> terminal (end_chunk 1) \<longrightarrow>
         createChunkedBody
           ([data_chunk ''ab'' 0] @ end_chunk 1 # [data_chunk ''cd'' 2, error_chunk ''late'' 3])
         = \<lparr>enqueued = [data_chunk ''ab'' 0] @ [end_chunk 1], closed = True\<rparr>"
    by blast
  with t have b2: "createChunkedBody
       ([data_chunk ''ab'' 0] @ end_chunk 1 # [data_chunk ''cd'' 2, error_chunk ''late'' 3])
     = \<lparr>enqueued = [data_chunk ''ab'' 0] @ [end_chunk 1], closed = True\<rparr>"
    by simp
  show ?thesis
    using s1 s2 s3 t b1 b2 by blast
qed

end
